theory Spec2Isabelle
  imports Main "HOL-Library.Sublist" "HOL-Library.Multiset"
begin

section \<open>Strings and integers as the Python source uses them\<close>

text \<open>
  A Python \<open>str\<close> is modelled as a \<open>string\<close> whose characters are the code points below 256
  (Latin-1); text outside that range is outside the model. The helpers below are the
  built-in string methods the source calls, restricted to that range.
\<close>

datatype py_exception = ValueError | OverflowError | Failure string

definition isspace :: "char \<Rightarrow> bool" where
  "isspace c = (let n = (of_char c :: nat) in
     (9 \<le> n \<and> n \<le> 13) \<or> (28 \<le> n \<and> n \<le> 32) \<or> n = 133 \<or> n = 160)"

definition isdigit :: "char \<Rightarrow> bool" where
  "isdigit c = (let n = (of_char c :: nat) in 48 \<le> n \<and> n \<le> 57)"

definition digit_value :: "char \<Rightarrow> int" where
  "digit_value c = int (of_char c) - 48"

definition lower_char :: "char \<Rightarrow> char" where
  "lower_char c = (let n = (of_char c :: nat) in
     if (65 \<le> n \<and> n \<le> 90) \<or> (192 \<le> n \<and> n \<le> 222 \<and> n \<noteq> 215)
     then char_of (n + 32) else c)"

definition lower :: "string \<Rightarrow> string" where
  "lower s = map lower_char s"

definition strip_chars :: "(char \<Rightarrow> bool) \<Rightarrow> string \<Rightarrow> string" where
  "strip_chars p s = rev (dropWhile p (rev (dropWhile p s)))"

definition startswith :: "string \<Rightarrow> string \<Rightarrow> bool" where
  "startswith s p = (take (length p) s = p)"

text \<open>\<open>before c s\<close> and \<open>after c s\<close> are the two parts of \<open>s.split(c, 1)\<close> when \<open>c\<close> occurs in \<open>s\<close>.\<close>

definition before :: "char \<Rightarrow> string \<Rightarrow> string" where
  "before c s = takeWhile (\<lambda>x. x \<noteq> c) s"

definition after :: "char \<Rightarrow> string \<Rightarrow> string" where
  "after c s = drop 1 (dropWhile (\<lambda>x. x \<noteq> c) s)"

text \<open>
  \<open>int(s)\<close> for a string in base 10: surrounding whitespace is dropped, one sign is allowed,
  then decimal digits, where single underscores may stand between digits. Anything else
  raises \<open>ValueError\<close>, which is \<open>None\<close> here. Integers are unbounded, as in the language;
  the limit that some interpreters set on the number of digits is not modelled.
\<close>

fun int_digits :: "bool \<Rightarrow> int \<Rightarrow> string \<Rightarrow> int option" where
  "int_digits prev acc [] = (if prev then Some acc else None)"
| "int_digits prev acc (c # cs) =
     (if isdigit c then int_digits True (acc * 10 + digit_value c) cs
      else if c = CHR ''_'' \<and> prev then int_digits False acc cs
      else None)"

definition py_int :: "string \<Rightarrow> int option" where
  "py_int s = (case strip_chars isspace s of
       [] \<Rightarrow> None
     | c # r \<Rightarrow>
         if c = CHR ''-'' then map_option uminus (int_digits False 0 r)
         else if c = CHR ''+'' then int_digits False 0 r
         else int_digits False 0 (c # r))"

section \<open>The duration parser\<close>

text \<open>
  \<open>_parse_duration\<close> of \<open>search_engine.py\<close>; the method of the same name in
  \<open>user_preferences.py\<close> has the same body. \<open>parse_duration_try\<close> is the body of the
  \<open>try\<close> block, with the exception a failing \<open>int(...)\<close> raises as \<open>Inl\<close>;
  \<open>parse_duration\<close> adds the handler \<open>except Exception: return 0\<close>.
\<close>

definition parse_duration_try :: "string \<Rightarrow> py_exception + int" where
  "parse_duration_try duration_str =
     (if \<not> startswith duration_str ''PT'' then Inr 0
      else
        let s0 = drop 2 duration_str in
        (case (if CHR ''H'' \<in> set s0
               then (case py_int (before CHR ''H'' s0) of
                       None \<Rightarrow> Inl ValueError
                     | Some hours \<Rightarrow> Inr (hours * 3600, after CHR ''H'' s0))
               else Inr (0, s0)) of
           Inl e \<Rightarrow> Inl e
         | Inr (t1, s1) \<Rightarrow>
          (case (if CHR ''M'' \<in> set s1
                 then (case py_int (before CHR ''M'' s1) of
                         None \<Rightarrow> Inl ValueError
                       | Some minutes \<Rightarrow> Inr (t1 + minutes * 60, after CHR ''M'' s1))
                 else Inr (t1, s1)) of
             Inl e \<Rightarrow> Inl e
           | Inr (t2, s2) \<Rightarrow>
              (if CHR ''S'' \<in> set s2
               then (case py_int (before CHR ''S'' s2) of
                       None \<Rightarrow> Inl ValueError
                     | Some seconds \<Rightarrow> Inr (t2 + seconds))
               else Inr t2))))"

definition parse_duration :: "string \<Rightarrow> int" where
  "parse_duration duration_str =
     (case parse_duration_try duration_str of Inl e \<Rightarrow> 0 | Inr total_seconds \<Rightarrow> total_seconds)"

section \<open>The data model\<close>

text \<open>
  A video is a Python dictionary read with \<open>video.get(key, default)\<close> only, so a key may
  be missing: every field is an option and \<open>dict_get\<close> supplies the default.
\<close>

record VideoRecord =
  video_id :: "string option"
  title :: "string option"
  channel :: "string option"
  description :: "string option"
  published_at :: "string option"
  duration :: "string option"
  view_count :: "int option"
  like_count :: "int option"
  category_id :: "string option"

definition dict_get :: "'a option \<Rightarrow> 'a \<Rightarrow> 'a" where
  "dict_get field d = (case field of None \<Rightarrow> d | Some x \<Rightarrow> x)"

text \<open>
  The preference dictionary, one field per key of \<open>default_preferences\<close>.
  \<open>get_preferences\<close> overlays the stored rows on the defaults, so every key is present.
\<close>

record PreferenceSet =
  preferred_channels :: "string list"
  preferred_categories :: "string list"
  min_duration :: int
  max_duration :: int
  preferred_languages :: "string list"
  exclude_channels :: "string list"
  min_views :: int
  max_age_days :: int
  preferred_keywords :: "string list"
  disliked_keywords :: "string list"

definition default_preferences :: PreferenceSet where
  "default_preferences =
     \<lparr> preferred_channels = [], preferred_categories = [],
       min_duration = 0, max_duration = 7200,
       preferred_languages = [''en''], exclude_channels = [],
       min_views = 0, max_age_days = 365,
       preferred_keywords = [], disliked_keywords = [] \<rparr>"

section \<open>Time\<close>

text \<open>
  The \<open>datetime\<close> module is outside the repository. A point in time and a \<open>timedelta\<close> are
  integers counting microseconds; \<open>now\<close> is the reading of the clock and
  \<open>fromisoformat\<close> is \<open>datetime.fromisoformat\<close>, \<open>None\<close> where it raises.
  \<open>timedelta(days=n)\<close> raises \<open>OverflowError\<close> unless \<open>-999999999 \<le> n \<le> 999999999\<close>.
  One call of the filter reads one time: the microseconds that pass between the videos of
  one call are not modelled.
\<close>

record clock =
  now :: int
  fromisoformat :: "string \<Rightarrow> int option"

definition timedelta_days :: "int \<Rightarrow> int option" where
  "timedelta_days n =
     (if - 999999999 \<le> n \<and> n \<le> 999999999 then Some (n * 86400000000) else None)"

definition replace_Z :: "string \<Rightarrow> string" where
  "replace_Z s = concat (map (\<lambda>c. if c = CHR ''Z'' then ''+00:00'' else [c]) s)"

definition is_video_too_old :: "clock \<Rightarrow> string \<Rightarrow> int \<Rightarrow> bool" where
  "is_video_too_old clk published max_age_days' =
     (if published = [] then False
      else case fromisoformat clk (replace_Z published) of
             None \<Rightarrow> False
           | Some published_date \<Rightarrow>
               (case timedelta_days max_age_days' of
                  None \<Rightarrow> False
                | Some max_age \<Rightarrow> now clk - published_date > max_age))"

section \<open>The filter pipeline\<close>

text \<open>
  \<open>_apply_preference_filters\<close>: the loop over \<open>videos\<close> with its five \<open>continue\<close> statements;
  the last argument is the list \<open>filtered_videos\<close> built so far. \<open>a in b\<close> on strings is
  \<open>sublist a b\<close>.
\<close>

fun apply_preference_filters_loop ::
  "clock \<Rightarrow> PreferenceSet \<Rightarrow> VideoRecord list \<Rightarrow> VideoRecord list \<Rightarrow> VideoRecord list" where
  "apply_preference_filters_loop clk preferences [] filtered_videos = filtered_videos"
| "apply_preference_filters_loop clk preferences (video # videos) filtered_videos =
     (if dict_get (channel video) '''' \<in> set (exclude_channels preferences)
      then apply_preference_filters_loop clk preferences videos filtered_videos
      else if parse_duration (dict_get (duration video) ''PT0M0S'') < min_duration preferences
            \<or> parse_duration (dict_get (duration video) ''PT0M0S'') > max_duration preferences
      then apply_preference_filters_loop clk preferences videos filtered_videos
      else if dict_get (view_count video) 0 < min_views preferences
      then apply_preference_filters_loop clk preferences videos filtered_videos
      else if is_video_too_old clk (dict_get (published_at video) '''') (max_age_days preferences)
      then apply_preference_filters_loop clk preferences videos filtered_videos
      else if list_ex (\<lambda>keyword.
                  sublist (lower keyword) (lower (dict_get (title video) ''''))
                \<or> sublist (lower keyword) (lower (dict_get (description video) '''')))
                (disliked_keywords preferences)
      then apply_preference_filters_loop clk preferences videos filtered_videos
      else apply_preference_filters_loop clk preferences videos (filtered_videos @ [video]))"

definition apply_preference_filters ::
  "clock \<Rightarrow> PreferenceSet \<Rightarrow> VideoRecord list \<Rightarrow> VideoRecord list" where
  "apply_preference_filters clk preferences videos =
     apply_preference_filters_loop clk preferences videos []"

text \<open>
  The five exclusion predicates in the words of the specification. The age of a video is
  the time since \<open>published_at\<close>; it is compared with \<open>max_age_days\<close> days on the scale of
  the clock, so a video one hour older than the limit is too old.
\<close>

definition channel_excluded :: "PreferenceSet \<Rightarrow> VideoRecord \<Rightarrow> bool" where
  "channel_excluded p v = (dict_get (channel v) '''' \<in> set (exclude_channels p))"

definition duration_out_of_range :: "PreferenceSet \<Rightarrow> VideoRecord \<Rightarrow> bool" where
  "duration_out_of_range p v =
     (parse_duration (dict_get (duration v) ''PT0M0S'') < min_duration p
      \<or> parse_duration (dict_get (duration v) ''PT0M0S'') > max_duration p)"

definition too_few_views :: "PreferenceSet \<Rightarrow> VideoRecord \<Rightarrow> bool" where
  "too_few_views p v = (dict_get (view_count v) 0 < min_views p)"

definition age_of :: "clock \<Rightarrow> VideoRecord \<Rightarrow> int option" where
  "age_of clk v =
     (case published_at v of
        None \<Rightarrow> None
      | Some s \<Rightarrow> if s = [] then None
                  else map_option (\<lambda>t. now clk - t) (fromisoformat clk (replace_Z s)))"

definition older_than_max_age :: "clock \<Rightarrow> PreferenceSet \<Rightarrow> VideoRecord \<Rightarrow> bool" where
  "older_than_max_age clk p v =
     (case age_of clk v of None \<Rightarrow> False | Some age \<Rightarrow> age > max_age_days p * 86400000000)"

definition has_disliked_keyword :: "PreferenceSet \<Rightarrow> VideoRecord \<Rightarrow> bool" where
  "has_disliked_keyword p v =
     (\<exists>k \<in> set (disliked_keywords p).
        sublist (lower k) (lower (dict_get (title v) ''''))
      \<or> sublist (lower k) (lower (dict_get (description v) '''')))"

definition excluded_as_specified :: "clock \<Rightarrow> PreferenceSet \<Rightarrow> VideoRecord \<Rightarrow> bool" where
  "excluded_as_specified clk p v =
     (channel_excluded p v \<or> duration_out_of_range p v \<or> too_few_views p v
      \<or> older_than_max_age clk p v \<or> has_disliked_keyword p v)"

text \<open>
  The same with the age predicate the code computes: a \<open>max_age_days\<close> that
  \<open>timedelta\<close> cannot represent lets every video pass.
\<close>

definition excluded :: "clock \<Rightarrow> PreferenceSet \<Rightarrow> VideoRecord \<Rightarrow> bool" where
  "excluded clk p v =
     (channel_excluded p v \<or> duration_out_of_range p v \<or> too_few_views p v
      \<or> (\<bar>max_age_days p\<bar> \<le> 999999999 \<and> older_than_max_age clk p v)
      \<or> has_disliked_keyword p v)"

section \<open>Ranking\<close>

text \<open>
  \<open>_calculate_preference_score\<close> computes in double precision; it is a parameter here, a
  function into any linear order that may raise (the division \<open>like_count / view_count\<close>
  raises \<open>OverflowError\<close> when the quotient of the two integers is beyond the doubles).
  The score is a sum of terms that are not negative, so it is never a NaN, and the
  doubles without NaN are linearly ordered.
  \<open>score_all\<close> is the loop of \<open>_rank_by_preferences\<close> that pairs each video with its score.
\<close>

fun score_all ::
  "(VideoRecord \<Rightarrow> py_exception + 'k) \<Rightarrow> VideoRecord list
   \<Rightarrow> py_exception + ('k \<times> VideoRecord) list" where
  "score_all f [] = Inr []"
| "score_all f (video # videos) =
     (case f video of
        Inl e \<Rightarrow> Inl e
      | Inr score \<Rightarrow>
          (case score_all f videos of
             Inl e \<Rightarrow> Inl e
           | Inr scored_videos \<Rightarrow> Inr ((score, video) # scored_videos)))"

text \<open>
  \<open>xs.sort(key=k, reverse=True)\<close>: the list is reversed, sorted by a stable ascending
  sort, and reversed again.
\<close>

definition sort_reverse :: "('a \<Rightarrow> 'k::linorder) \<Rightarrow> 'a list \<Rightarrow> 'a list" where
  "sort_reverse k xs = rev (sort_key k (rev xs))"

definition rank_by_preferences ::
  "(PreferenceSet \<Rightarrow> string \<Rightarrow> VideoRecord \<Rightarrow> py_exception + 'k::linorder)
   \<Rightarrow> VideoRecord list \<Rightarrow> PreferenceSet \<Rightarrow> string \<Rightarrow> py_exception + VideoRecord list" where
  "rank_by_preferences calculate_preference_score videos preferences query =
     (case score_all (calculate_preference_score preferences query) videos of
        Inl e \<Rightarrow> Inl e
      | Inr scored_videos \<Rightarrow> Inr (map snd (sort_reverse fst scored_videos)))"

section \<open>The learning rules\<close>

text \<open>
  \<open>_learn_from_interaction\<close> between its calls of \<open>get_preferences\<close> and
  \<open>update_preferences\<close>: four rules applied in turn to the dictionary \<open>preferences\<close>.
\<close>

text \<open>\<open>xs[-n:]\<close> for a positive \<open>n\<close>.\<close>

definition last_n :: "nat \<Rightarrow> 'a list \<Rightarrow> 'a list" where
  "last_n n xs = drop (length xs - n) xs"

definition learn_channel :: "VideoRecord \<Rightarrow> string \<Rightarrow> PreferenceSet \<Rightarrow> PreferenceSet" where
  "learn_channel video_data action preferences =
     (let ch = dict_get (channel video_data) '''' in
      if ch \<noteq> [] \<and> action \<in> {''clicked'', ''liked'', ''watched''}
      then
        if ch \<notin> set (preferred_channels preferences)
        then
          let appended = preferred_channels preferences @ [ch] in
          if length appended > 50
          then preferences\<lparr>preferred_channels := last_n 50 appended\<rparr>
          else preferences\<lparr>preferred_channels := appended\<rparr>
        else preferences
      else preferences)"

definition learn_category :: "VideoRecord \<Rightarrow> string \<Rightarrow> PreferenceSet \<Rightarrow> PreferenceSet" where
  "learn_category video_data action preferences =
     (let category = dict_get (category_id video_data) '''' in
      if category \<noteq> [] \<and> action \<in> {''clicked'', ''liked''}
      then
        if category \<notin> set (preferred_categories preferences)
        then preferences\<lparr>preferred_categories := preferred_categories preferences @ [category]\<rparr>
        else preferences
      else preferences)"

definition learn_duration :: "VideoRecord \<Rightarrow> string \<Rightarrow> PreferenceSet \<Rightarrow> PreferenceSet" where
  "learn_duration video_data action preferences =
     (let d = parse_duration (dict_get (duration video_data) ''PT0M0S'') in
      if d > 0 \<and> action \<in> {''watched'', ''liked''}
      then
        let current_min = min_duration preferences;
            current_max = max_duration preferences;
            preferences1 =
              (if d < current_min
               then preferences\<lparr>min_duration := max 0 (current_min - 60)\<rparr>
               else preferences)
        in if d > current_max
           then preferences1\<lparr>max_duration := min 14400 (current_max + 300)\<rparr>
           else preferences1
      else preferences)"

text \<open>\<open>s.split()\<close>: the maximal runs of characters that are not whitespace.\<close>

fun split_loop :: "string \<Rightarrow> string \<Rightarrow> string list" where
  "split_loop word [] = (if word = [] then [] else [word])"
| "split_loop word (c # cs) =
     (if isspace c
      then (if word = [] then split_loop [] cs else word # split_loop [] cs)
      else split_loop (word @ [c]) cs)"

definition split_whitespace :: "string \<Rightarrow> string list" where
  "split_whitespace s = split_loop [] s"

definition common_words :: "string list" where
  "common_words =
     [''this'', ''that'', ''with'', ''have'', ''will'', ''from'', ''they'', ''know'',
      ''want'', ''been'', ''good'', ''much'', ''some'', ''time'', ''very'', ''when'',
      ''come'', ''here'', ''just'', ''like'', ''long'', ''make'', ''many'', ''over'',
      ''such'', ''take'', ''than'', ''them'', ''well'', ''were'']"

text \<open>The list comprehension that builds \<open>words\<close>: the length test reads the token as split.\<close>

definition title_words :: "string \<Rightarrow> string list" where
  "title_words t =
     map (strip_chars (\<lambda>c. c \<in> set ''.,!?()[]''))
         (filter (\<lambda>word. length word > 3) (split_whitespace t))"

text \<open>One round of the loop \<open>for word in words\<close>, on the list \<open>preferred_keywords\<close>.\<close>

definition add_keyword :: "string \<Rightarrow> string list \<Rightarrow> string list" where
  "add_keyword word keywords =
     (if word \<notin> set common_words \<and> word \<notin> set keywords \<and> length keywords < 100
      then keywords @ [word] else keywords)"

definition learn_keywords :: "VideoRecord \<Rightarrow> string \<Rightarrow> PreferenceSet \<Rightarrow> PreferenceSet" where
  "learn_keywords video_data action preferences =
     (let t = lower (dict_get (title video_data) '''') in
      if t \<noteq> [] \<and> action \<in> {''clicked'', ''liked''}
      then preferences\<lparr>preferred_keywords :=
             fold add_keyword (title_words t) (preferred_keywords preferences)\<rparr>
      else preferences)"

definition learn_rules :: "PreferenceSet \<Rightarrow> VideoRecord \<Rightarrow> string \<Rightarrow> PreferenceSet" where
  "learn_rules preferences video_data action =
     learn_keywords video_data action
       (learn_duration video_data action
         (learn_category video_data action
           (learn_channel video_data action preferences)))"

text \<open>A sequence of learn calls on a store that returns what the call before wrote.\<close>

fun learn_all :: "PreferenceSet \<Rightarrow> (VideoRecord \<times> string) list \<Rightarrow> PreferenceSet" where
  "learn_all preferences [] = preferences"
| "learn_all preferences ((video_data, action) # events) =
     learn_all (learn_rules preferences video_data action) events"

section \<open>Search and the operations built on it\<close>

text \<open>
  The collaborators of \<open>PersonalizedSearchEngine\<close>: the video source
  (\<open>youtube_client.search_videos\<close> with \<open>order='relevance'\<close>) and the two methods of
  \<open>preference_engine\<close> that \<open>search\<close> calls. Each takes the state \<open>'w\<close> of the world outside
  the engine and returns a value or an exception together with the new state. The scoring
  function and the clock complete the environment.
\<close>

record ('w, 'k) search_env =
  youtube_search_videos :: "string \<Rightarrow> int \<Rightarrow> 'w \<Rightarrow> (py_exception + VideoRecord list) \<times> 'w"
  engine_get_preferences :: "'w \<Rightarrow> (py_exception + PreferenceSet) \<times> 'w"
  engine_record_search :: "string \<Rightarrow> int \<Rightarrow> 'w \<Rightarrow> (py_exception + unit) \<times> 'w"
  calculate_preference_score :: "PreferenceSet \<Rightarrow> string \<Rightarrow> VideoRecord \<Rightarrow> py_exception + 'k"
  env_clock :: clock

text \<open>\<open>xs[:n]\<close> for any integer \<open>n\<close>: a negative \<open>n\<close> drops the last \<open>-n\<close> elements.\<close>

definition slice_to :: "int \<Rightarrow> 'a list \<Rightarrow> 'a list" where
  "slice_to n xs = (if 0 \<le> n then take (nat n) xs else take (nat (int (length xs) + n)) xs)"

text \<open>
  \<open>search\<close>. Its handler \<open>except Exception as e: ...; raise\<close> raises the exception it caught,
  so every \<open>Inl e\<close> of a step is the result.
\<close>

definition search ::
  "('w, 'k::linorder) search_env \<Rightarrow> string \<Rightarrow> int \<Rightarrow> 'w \<Rightarrow> (py_exception + VideoRecord list) \<times> 'w" where
  "search env query max_results w =
     (case youtube_search_videos env query (min (max_results * 2) 50) w of
        (Inl e, w1) \<Rightarrow> (Inl e, w1)
      | (Inr raw_results, w1) \<Rightarrow>
         (case engine_get_preferences env w1 of
            (Inl e, w2) \<Rightarrow> (Inl e, w2)
          | (Inr preferences, w2) \<Rightarrow>
             (let filtered_results = apply_preference_filters (env_clock env) preferences raw_results in
              case rank_by_preferences (calculate_preference_score env) filtered_results preferences query of
                Inl e \<Rightarrow> (Inl e, w2)
              | Inr ranked_results \<Rightarrow>
                 (let final_results = slice_to max_results ranked_results in
                  case engine_record_search env query (int (length final_results)) w2 of
                    (Inl e, w3) \<Rightarrow> (Inl e, w3)
                  | (Inr u, w3) \<Rightarrow> (Inr final_results, w3)))))"

text \<open>The loop that removes duplicates by \<open>video_id\<close>; the second argument is \<open>seen_ids\<close>.\<close>

fun unique_by_video_id :: "VideoRecord list \<Rightarrow> string list \<Rightarrow> VideoRecord list" where
  "unique_by_video_id [] seen_ids = []"
| "unique_by_video_id (video # videos) seen_ids =
     (if dict_get (video_id video) '''' \<notin> set seen_ids
      then video # unique_by_video_id videos (dict_get (video_id video) '''' # seen_ids)
      else unique_by_video_id videos seen_ids)"

definition trending_queries :: "string list" where
  "trending_queries = [''trending today'', ''popular videos'', ''viral videos'', ''latest trending'']"

text \<open>
  The loop of \<open>get_trending_personalized\<close> over its queries: there is no handler inside the
  loop, so an exception of one \<open>search\<close> ends it.
\<close>

fun trending_loop ::
  "('w, 'k::linorder) search_env \<Rightarrow> int \<Rightarrow> string list \<Rightarrow> VideoRecord list \<Rightarrow> 'w
   \<Rightarrow> (py_exception + VideoRecord list) \<times> 'w" where
  "trending_loop env n [] all_results w = (Inr all_results, w)"
| "trending_loop env n (query # queries) all_results w =
     (case search env query n w of
        (Inl e, w1) \<Rightarrow> (Inl e, w1)
      | (Inr results, w1) \<Rightarrow> trending_loop env n queries (all_results @ results) w1)"

definition get_trending_personalized ::
  "('w, 'k::linorder) search_env \<Rightarrow> int \<Rightarrow> 'w \<Rightarrow> (py_exception + VideoRecord list) \<times> 'w" where
  "get_trending_personalized env max_results w =
     (case trending_loop env (max_results div int (length trending_queries)) trending_queries [] w of
        (Inl e, w1) \<Rightarrow> (Inr [], w1)
      | (Inr all_results, w1) \<Rightarrow> (Inr (slice_to max_results (unique_by_video_id all_results [])), w1))"

text \<open>
  The loop of \<open>get_recommendations\<close>: the \<open>try\<close> inside the loop skips a query whose
  \<open>search\<close> raises.
\<close>

fun recommendations_loop ::
  "('w, 'k::linorder) search_env \<Rightarrow> int \<Rightarrow> string list \<Rightarrow> VideoRecord list \<Rightarrow> 'w
   \<Rightarrow> VideoRecord list \<times> 'w" where
  "recommendations_loop env n [] all_results w = (all_results, w)"
| "recommendations_loop env n (query # queries) all_results w =
     (case search env query n w of
        (Inl e, w1) \<Rightarrow> recommendations_loop env n queries all_results w1
      | (Inr results, w1) \<Rightarrow> recommendations_loop env n queries (all_results @ results) w1)"

definition recommendation_queries :: "PreferenceSet \<Rightarrow> string list" where
  "recommendation_queries preferences =
     (let queries = take 10 (preferred_keywords preferences)
                    @ map (\<lambda>ch. ''channel:'' @ ch) (take 5 (preferred_channels preferences))
      in if queries = [] then [''educational'', ''entertainment'', ''technology'', ''music'']
         else queries)"

definition get_recommendations ::
  "('w, 'k::linorder) search_env \<Rightarrow> int \<Rightarrow> 'w \<Rightarrow> (py_exception + VideoRecord list) \<times> 'w" where
  "get_recommendations env max_results w =
     (case engine_get_preferences env w of
        (Inl e, w1) \<Rightarrow> (Inr [], w1)
      | (Inr preferences, w1) \<Rightarrow>
         (let queries = recommendation_queries preferences;
              results_per_query = max 1 (max_results div int (length queries))
          in case recommendations_loop env results_per_query queries [] w1 of
               (all_results, w2) \<Rightarrow>
                 (Inr (slice_to max_results (unique_by_video_id all_results [])), w2)))"

section \<open>The preference engine on its database\<close>

text \<open>
  \<open>UserPreferenceEngine\<close> keeps the dictionary \<open>self.default_preferences\<close> and a SQLite file.
  The \<open>sqlite3\<close> calls of each method are one operation on a database state \<open>'db\<close> that
  returns an exception, with the database as it was (nothing is committed), or its result.
  The rows of \<open>user_preferences\<close> are those of the ten recognised keys, with values of the
  key's type.
\<close>

datatype pref_row =
    Row_preferred_channels "string list"
  | Row_preferred_categories "string list"
  | Row_min_duration int
  | Row_max_duration int
  | Row_preferred_languages "string list"
  | Row_exclude_channels "string list"
  | Row_min_views int
  | Row_max_age_days int
  | Row_preferred_keywords "string list"
  | Row_disliked_keywords "string list"

record interaction_row =
  row_video_id :: string
  row_action :: string
  row_query :: "string option"
  row_channel :: string
  row_category :: string
  row_duration :: int
  row_view_count :: int

record 'db sqlite =
  select_preferences :: "'db \<Rightarrow> py_exception + pref_row list"
  replace_preferences :: "pref_row list \<Rightarrow> 'db \<Rightarrow> py_exception + 'db"
  insert_interaction :: "interaction_row \<Rightarrow> 'db \<Rightarrow> py_exception + 'db"
  insert_search :: "string \<Rightarrow> int \<Rightarrow> 'db \<Rightarrow> py_exception + 'db"

record 'db engine =
  self_default_preferences :: PreferenceSet
  database :: 'db

fun row_key :: "pref_row \<Rightarrow> string" where
  "row_key (Row_preferred_channels x) = ''preferred_channels''"
| "row_key (Row_preferred_categories x) = ''preferred_categories''"
| "row_key (Row_min_duration x) = ''min_duration''"
| "row_key (Row_max_duration x) = ''max_duration''"
| "row_key (Row_preferred_languages x) = ''preferred_languages''"
| "row_key (Row_exclude_channels x) = ''exclude_channels''"
| "row_key (Row_min_views x) = ''min_views''"
| "row_key (Row_max_age_days x) = ''max_age_days''"
| "row_key (Row_preferred_keywords x) = ''preferred_keywords''"
| "row_key (Row_disliked_keywords x) = ''disliked_keywords''"

fun overlay_row :: "pref_row \<Rightarrow> PreferenceSet \<Rightarrow> PreferenceSet" where
  "overlay_row (Row_preferred_channels x) p = p\<lparr>preferred_channels := x\<rparr>"
| "overlay_row (Row_preferred_categories x) p = p\<lparr>preferred_categories := x\<rparr>"
| "overlay_row (Row_min_duration x) p = p\<lparr>min_duration := x\<rparr>"
| "overlay_row (Row_max_duration x) p = p\<lparr>max_duration := x\<rparr>"
| "overlay_row (Row_preferred_languages x) p = p\<lparr>preferred_languages := x\<rparr>"
| "overlay_row (Row_exclude_channels x) p = p\<lparr>exclude_channels := x\<rparr>"
| "overlay_row (Row_min_views x) p = p\<lparr>min_views := x\<rparr>"
| "overlay_row (Row_max_age_days x) p = p\<lparr>max_age_days := x\<rparr>"
| "overlay_row (Row_preferred_keywords x) p = p\<lparr>preferred_keywords := x\<rparr>"
| "overlay_row (Row_disliked_keywords x) p = p\<lparr>disliked_keywords := x\<rparr>"

definition rows_of :: "PreferenceSet \<Rightarrow> pref_row list" where
  "rows_of p =
     [Row_preferred_channels (preferred_channels p),
      Row_preferred_categories (preferred_categories p),
      Row_min_duration (min_duration p),
      Row_max_duration (max_duration p),
      Row_preferred_languages (preferred_languages p),
      Row_exclude_channels (exclude_channels p),
      Row_min_views (min_views p),
      Row_max_age_days (max_age_days p),
      Row_preferred_keywords (preferred_keywords p),
      Row_disliked_keywords (disliked_keywords p)]"

text \<open>\<open>get_preferences\<close>: the stored rows laid over a copy of the defaults; the defaults when reading fails.\<close>

definition get_preferences :: "'db sqlite \<Rightarrow> 'db engine \<Rightarrow> PreferenceSet" where
  "get_preferences sq st =
     (case select_preferences sq (database st) of
        Inl e \<Rightarrow> self_default_preferences st
      | Inr rows \<Rightarrow> fold overlay_row rows (self_default_preferences st))"

text \<open>\<open>update_preferences\<close> with a full dictionary; its handler logs and raises again.\<close>

definition update_preferences ::
  "'db sqlite \<Rightarrow> PreferenceSet \<Rightarrow> 'db engine \<Rightarrow> py_exception + 'db engine" where
  "update_preferences sq preferences st =
     (case replace_preferences sq (rows_of preferences) (database st) of
        Inl e \<Rightarrow> Inl e
      | Inr db \<Rightarrow> Inr (st\<lparr>database := db\<rparr>))"

text \<open>
  The copy \<open>get_preferences\<close> makes of the defaults is shallow: the list under a key with no
  stored row is the list object of \<open>self.default_preferences\<close>, and an \<open>append\<close> to it
  changes the defaults too. \<open>shares_default\<close> says whether the list under a key is shared.
\<close>

definition shares_default :: "'db sqlite \<Rightarrow> 'db engine \<Rightarrow> string \<Rightarrow> bool" where
  "shares_default sq st key =
     (case select_preferences sq (database st) of
        Inl e \<Rightarrow> True
      | Inr rows \<Rightarrow> \<not> list_ex (\<lambda>r. row_key r = key) rows)"

text \<open>The list object under \<open>preferred_channels\<close> after the first rule, before any slice is assigned.\<close>

definition channel_appended :: "VideoRecord \<Rightarrow> string \<Rightarrow> PreferenceSet \<Rightarrow> string list" where
  "channel_appended video_data action preferences =
     (let ch = dict_get (channel video_data) '''' in
      if ch \<noteq> [] \<and> action \<in> {''clicked'', ''liked'', ''watched''}
         \<and> ch \<notin> set (preferred_channels preferences)
      then preferred_channels preferences @ [ch]
      else preferred_channels preferences)"

text \<open>\<open>_learn_from_interaction\<close>: every exception is caught and logged.\<close>

definition learn_from_interaction ::
  "'db sqlite \<Rightarrow> VideoRecord \<Rightarrow> string \<Rightarrow> 'db engine \<Rightarrow> 'db engine" where
  "learn_from_interaction sq video_data action st =
     (let preferences = get_preferences sq st;
          learned = learn_rules preferences video_data action;
          d = self_default_preferences st;
          st1 = st\<lparr>self_default_preferences := d\<lparr>
                  preferred_channels :=
                    (if shares_default sq st ''preferred_channels''
                     then channel_appended video_data action preferences
                     else preferred_channels d),
                  preferred_categories :=
                    (if shares_default sq st ''preferred_categories''
                     then preferred_categories learned
                     else preferred_categories d),
                  preferred_keywords :=
                    (if shares_default sq st ''preferred_keywords''
                     then preferred_keywords learned
                     else preferred_keywords d)\<rparr>\<rparr>
      in case update_preferences sq learned st1 of
           Inl e \<Rightarrow> st1
         | Inr st2 \<Rightarrow> st2)"

text \<open>
  \<open>record_interaction\<close>: \<open>record_interaction_try\<close> is the body of its \<open>try\<close> block, and the
  handler logs the exception and returns.
\<close>

text \<open>The row that \<open>record_interaction\<close> inserts (its timestamp is left out).\<close>

definition interaction_of :: "VideoRecord \<Rightarrow> string \<Rightarrow> string option \<Rightarrow> interaction_row" where
  "interaction_of video_data action query =
     \<lparr> row_video_id = dict_get (video_id video_data) '''',
       row_action = action,
       row_query = query,
       row_channel = dict_get (channel video_data) '''',
       row_category = dict_get (category_id video_data) '''',
       row_duration = parse_duration (dict_get (duration video_data) ''PT0M0S''),
       row_view_count = dict_get (view_count video_data) 0 \<rparr>"

definition record_interaction_try ::
  "'db sqlite \<Rightarrow> VideoRecord \<Rightarrow> string \<Rightarrow> string option \<Rightarrow> 'db engine
   \<Rightarrow> (py_exception + unit) \<times> 'db engine" where
  "record_interaction_try sq video_data action query st =
     (case insert_interaction sq (interaction_of video_data action query) (database st) of
        Inl e \<Rightarrow> (Inl e, st)
      | Inr db \<Rightarrow>
          (if action \<in> {''clicked'', ''liked'', ''watched''}
           then (Inr (), learn_from_interaction sq video_data action (st\<lparr>database := db\<rparr>))
           else (Inr (), st\<lparr>database := db\<rparr>)))"

definition record_interaction ::
  "'db sqlite \<Rightarrow> VideoRecord \<Rightarrow> string \<Rightarrow> string option \<Rightarrow> 'db engine
   \<Rightarrow> (py_exception + unit) \<times> 'db engine" where
  "record_interaction sq video_data action query st =
     (case record_interaction_try sq video_data action query st of
        (Inl e, st1) \<Rightarrow> (Inr (), st1)
      | (Inr u, st1) \<Rightarrow> (Inr (), st1))"

text \<open>\<open>record_search\<close>: a failing insert is logged and the method returns.\<close>

definition record_search :: "'db sqlite \<Rightarrow> string \<Rightarrow> int \<Rightarrow> 'db engine \<Rightarrow> 'db engine" where
  "record_search sq query results_count st =
     (case insert_search sq query results_count (database st) of
        Inl e \<Rightarrow> st
      | Inr db \<Rightarrow> st\<lparr>database := db\<rparr>)"

section \<open>A database that works\<close>

text \<open>
  The three tables as lists of rows, and the four operations when no statement fails.
  \<open>INSERT OR REPLACE\<close> on the unique \<open>preference_key\<close> removes the row of a key that is
  written again.
\<close>

record working_db =
  preference_rows :: "pref_row list"
  interaction_rows :: "interaction_row list"
  search_rows :: "(string \<times> int) list"

definition upsert_rows :: "pref_row list \<Rightarrow> pref_row list \<Rightarrow> pref_row list" where
  "upsert_rows new old = filter (\<lambda>r. row_key r \<notin> set (map row_key new)) old @ new"

definition working_sqlite :: "working_db sqlite" where
  "working_sqlite =
     \<lparr> select_preferences = (\<lambda>db. Inr (preference_rows db)),
       replace_preferences =
         (\<lambda>rows db. Inr (db\<lparr>preference_rows := upsert_rows rows (preference_rows db)\<rparr>)),
       insert_interaction = (\<lambda>r db. Inr (db\<lparr>interaction_rows := interaction_rows db @ [r]\<rparr>)),
       insert_search = (\<lambda>q n db. Inr (db\<lparr>search_rows := search_rows db @ [(q, n)]\<rparr>)) \<rparr>"

text \<open>A sequence of \<open>record_interaction\<close> calls, each with no query.\<close>

fun record_all ::
  "'db sqlite \<Rightarrow> (VideoRecord \<times> string) list \<Rightarrow> 'db engine \<Rightarrow> 'db engine" where
  "record_all sq [] st = st"
| "record_all sq ((video_data, action) # events) st =
     record_all sq events (snd (record_interaction sq video_data action None st))"

definition new_engine :: "working_db engine" where
  "new_engine =
     \<lparr> self_default_preferences = default_preferences,
       database = \<lparr> preference_rows = [], interaction_rows = [], search_rows = [] \<rparr> \<rparr>"

section \<open>Decimal numerals\<close>

text \<open>The decimal numeral of a natural number, for statements about well-formed durations.\<close>

fun decimal :: "nat \<Rightarrow> string" where
  "decimal n = (if n < 10 then [char_of (48 + n)] else decimal (n div 10) @ [char_of (48 + n mod 10)])"

declare decimal.simps [simp del]

text \<open>
  A component \<open>nH\<close>, \<open>nM\<close> or \<open>nS\<close> of a duration \<open>PT[nH][nM][nS]\<close>, or nothing when the
  component is absent.
\<close>

definition component :: "nat option \<Rightarrow> char \<Rightarrow> string" where
  "component n c = (case n of None \<Rightarrow> [] | Some k \<Rightarrow> decimal k @ [c])"

definition amount :: "nat option \<Rightarrow> int" where
  "amount n = (case n of None \<Rightarrow> 0 | Some k \<Rightarrow> int k)"

section \<open>Example inputs\<close>

definition video :: "string \<Rightarrow> string \<Rightarrow> string \<Rightarrow> VideoRecord" where
  "video vid ch t =
     \<lparr> video_id = Some vid, title = Some t, channel = Some ch, description = Some '''',
       published_at = None, duration = Some ''PT5M'', view_count = Some 1000,
       like_count = Some 10, category_id = None \<rparr>"

text \<open>A clock that reads 2026-11-06T00:00:00Z and parses one timestamp, 2020-01-01T00:00:00Z.\<close>

definition example_clock :: clock where
  "example_clock =
     \<lparr> now = 1793923200000000,
       fromisoformat = (\<lambda>s. if s = ''2020-01-01T00:00:00+00:00''
                             then Some 1577836800000000 else None) \<rparr>"

definition old_video :: VideoRecord where
  "old_video = (video ''v-old'' ''Archive'' ''New year'')\<lparr>published_at := Some ''2020-01-01T00:00:00Z''\<rparr>"

definition unrepresentable_age_preferences :: PreferenceSet where
  "unrepresentable_age_preferences = default_preferences\<lparr>max_age_days := - 1000000000\<rparr>"

definition strict_preferences :: PreferenceSet where
  "strict_preferences =
     default_preferences\<lparr> exclude_channels := [''Spam''], min_duration := 60,
       min_views := 100, disliked_keywords := [''ASMR''] \<rparr>"

definition candidate_videos :: "VideoRecord list" where
  "candidate_videos =
     [video ''v1'' ''Lectures'' ''Hello'',
      video ''v2'' ''Spam'' ''Hello'',
      (video ''v3'' ''Lectures'' ''Hello'')\<lparr>duration := Some ''PT45S''\<rparr>,
      (video ''v4'' ''Lectures'' ''Hello'')\<lparr>view_count := Some 5\<rparr>,
      old_video,
      video ''v6'' ''Lectures'' ''Relaxing asmr sounds'',
      (video ''v7'' ''Lectures'' ''Hello'')\<lparr>published_at := Some ''yesterday''\<rparr>]"

definition score_by_views :: "PreferenceSet \<Rightarrow> string \<Rightarrow> VideoRecord \<Rightarrow> py_exception + int" where
  "score_by_views p q v = Inr (dict_get (view_count v) 0)"

definition tied_videos :: "VideoRecord list" where
  "tied_videos =
     [(video ''a'' ''A'' ''first'')\<lparr>view_count := Some 5\<rparr>,
      (video ''b'' ''B'' ''second'')\<lparr>view_count := Some 9\<rparr>,
      (video ''c'' ''C'' ''third'')\<lparr>view_count := Some 5\<rparr>]"

definition channel_names :: "nat \<Rightarrow> string list" where
  "channel_names n = map (\<lambda>i. replicate (Suc i) CHR ''c'') [0..<n]"

definition channel_videos :: "nat \<Rightarrow> VideoRecord list" where
  "channel_videos n = map (\<lambda>c. video c c '''') (channel_names n)"

definition full_preferences :: PreferenceSet where
  "full_preferences = default_preferences\<lparr>preferred_channels := channel_names 50\<rparr>"

definition punctuated_video :: VideoRecord where
  "punctuated_video = video ''k1'' ''Kids'' ''(ab) !!!!''"

definition greeting_video :: VideoRecord where
  "greeting_video = video ''k2'' ''Kids'' ''Hello, World!! this''"

definition short_video :: VideoRecord where
  "short_video = (video ''s1'' ''Shorts'' ''clip'')\<lparr>duration := Some ''PT45S''\<rparr>"

definition long_video :: VideoRecord where
  "long_video = (video ''l1'' ''Films'' ''film'')\<lparr>duration := Some ''PT3H''\<rparr>"

definition narrow_preferences :: PreferenceSet where
  "narrow_preferences = default_preferences\<lparr>min_duration := 120\<rparr>"

text \<open>
  A world that is the log of recorded searches, a source that returns two videos named
  after the query, and switches for the three collaborator calls to raise.
\<close>

definition test_env ::
  "(string \<Rightarrow> bool) \<Rightarrow> bool \<Rightarrow> bool \<Rightarrow> ((string \<times> int) list, int) search_env" where
  "test_env source_fails preferences_fail log_fails =
     \<lparr> youtube_search_videos =
         (\<lambda>q n w. if source_fails q then (Inl (Failure ''quota exceeded''), w)
                  else (Inr [video (q @ ''-1'') ''A'' q, video (q @ ''-2'') ''B'' q], w)),
       engine_get_preferences =
         (\<lambda>w. if preferences_fail then (Inl (Failure ''no preferences''), w)
              else (Inr default_preferences, w)),
       engine_record_search =
         (\<lambda>q n w. if log_fails then (Inl (Failure ''no log''), w) else (Inr (), w @ [(q, n)])),
       calculate_preference_score = score_by_views,
       env_clock = example_clock \<rparr>"

definition one_query_fails :: "string \<Rightarrow> bool" where
  "one_query_fails q = (q = ''popular videos'' \<or> q = ''entertainment'')"

text \<open>A database on which every statement raises, and an engine as its constructor leaves it.\<close>

definition locked_sqlite :: "unit sqlite" where
  "locked_sqlite =
     \<lparr> select_preferences = (\<lambda>db. Inl (Failure ''database is locked'')),
       replace_preferences = (\<lambda>rows db. Inl (Failure ''database is locked'')),
       insert_interaction = (\<lambda>r db. Inl (Failure ''database is locked'')),
       insert_search = (\<lambda>q n db. Inl (Failure ''database is locked'')) \<rparr>"

definition fresh_engine :: "unit engine" where
  "fresh_engine = \<lparr> self_default_preferences = default_preferences, database = () \<rparr>"

text \<open>A database that can be read and takes interactions, but raises on every write of preferences.\<close>

definition no_write_sqlite :: "unit sqlite" where
  "no_write_sqlite =
     \<lparr> select_preferences = (\<lambda>db. Inr []),
       replace_preferences = (\<lambda>rows db. Inl (Failure ''table user_preferences has no column named updated_at'')),
       insert_interaction = (\<lambda>r db. Inr db),
       insert_search = (\<lambda>q n db. Inr db) \<rparr>"

section \<open>Results: the duration parser\<close>

lemma parse_duration_try_cases:
  "(case parse_duration_try s of
      Inl e \<Rightarrow> e = ValueError \<and> parse_duration s = 0
    | Inr n \<Rightarrow> parse_duration s = n)"
  by (auto simp: parse_duration_def parse_duration_try_def Let_def
      split: sum.splits option.splits if_splits prod.splits)

text \<open>
  C2. \<open>parse_duration\<close> is a total function into the integers: the only exception its
  \<open>try\<close> block can raise is the \<open>ValueError\<close> of a failing \<open>int(...)\<close>, and the handler
  turns it into 0. It returns 330, 5400, 45 and 7200 on the four well-formed examples,
  and 0 on \<open>"invalid"\<close>, on the empty string, on every string that does not start with
  \<open>PT\<close>, and on every string on which a conversion fails, also after an earlier component
  was read (\<open>"PT1HxM"\<close> gives 0, not 3600).
\<close>

theorem parse_duration_lenient:
  "parse_duration ''PT5M30S'' = 330 \<and> parse_duration ''PT1H30M'' = 5400
   \<and> parse_duration ''PT45S'' = 45 \<and> parse_duration ''PT2H'' = 7200
   \<and> parse_duration ''invalid'' = 0 \<and> parse_duration '''' = 0
   \<and> parse_duration ''PT1HxM'' = 0
   \<and> (\<not> startswith s ''PT'' \<longrightarrow> parse_duration s = 0)
   \<and> (parse_duration_try s' = Inl e \<longrightarrow> e = ValueError \<and> parse_duration s' = 0)"
proof -
  have v1: "parse_duration ''PT5M30S'' = 330" by code_simp
  have v2: "parse_duration ''PT1H30M'' = 5400" by code_simp
  have v3: "parse_duration ''PT45S'' = 45" by code_simp
  have v4: "parse_duration ''PT2H'' = 7200" by code_simp
  have v5: "parse_duration ''invalid'' = 0" by code_simp
  have v6: "parse_duration '''' = 0" by code_simp
  have v7: "parse_duration ''PT1HxM'' = 0" by code_simp
  have np: "\<not> startswith s ''PT'' \<longrightarrow> parse_duration s = 0"
    by (simp add: parse_duration_def parse_duration_try_def)
  have fl: "parse_duration_try s' = Inl e \<longrightarrow> e = ValueError \<and> parse_duration s' = 0"
    using parse_duration_try_cases[of s'] by auto
  from v1 v2 v3 v4 v5 v6 v7 np fl show ?thesis by blast
qed

theorem parse_duration_lenient_witness:
  "\<not> startswith ''invalid'' ''PT'' \<and> parse_duration ''invalid'' = 0
   \<and> parse_duration_try ''PT1HxM'' = Inl ValueError \<and> parse_duration ''PT1HxM'' = 0"
proof -
  have a: "\<not> startswith ''invalid'' ''PT''" by code_simp
  have b: "parse_duration_try ''PT1HxM'' = Inl ValueError" by code_simp
  from a b parse_duration_lenient[of "''invalid''" "''PT1HxM''" ValueError]
  show ?thesis by blast
qed

section \<open>Results: well-formed durations\<close>

lemma decimal_digits: "c \<in> set (decimal n) \<Longrightarrow> isdigit c"
proof (induction n arbitrary: c rule: decimal.induct)
  case (1 n)
  show ?case
  proof (cases "n < 10")
    case True
    with "1.prems" have "c = char_of (48 + n)" by (subst (asm) decimal.simps) simp
    with True show ?thesis by (simp add: isdigit_def)
  next
    case False
    with "1.prems" have "c \<in> set (decimal (n div 10)) \<or> c = char_of (48 + n mod 10)"
      by (subst (asm) decimal.simps) auto
    then show ?thesis
    proof
      assume "c \<in> set (decimal (n div 10))"
      with "1.IH"[OF False] show ?thesis by simp
    next
      assume "c = char_of (48 + n mod 10)"
      moreover have "n mod 10 < 10" by simp
      ultimately show ?thesis by (simp add: isdigit_def)
    qed
  qed
qed

lemma decimal_not_Nil: "decimal n \<noteq> []"
  by (subst decimal.simps) simp

lemma int_digits_snoc:
  "isdigit c \<Longrightarrow> \<forall>x \<in> set xs. isdigit x \<Longrightarrow>
   int_digits b acc (xs @ [c]) = Some (the (int_digits True acc xs) * 10 + digit_value c)"
proof (induction xs arbitrary: b acc)
  case Nil
  then show ?case by simp
next
  case (Cons x xs)
  then show ?case by simp
qed

lemma digit_value_char_of: "k < 10 \<Longrightarrow> digit_value (char_of (48 + k)) = int k"
  by (simp add: digit_value_def)

lemma int_digits_decimal: "int_digits b 0 (decimal n) = Some (int n)"
proof (induction n arbitrary: b rule: decimal.induct)
  case (1 n)
  show ?case
  proof (cases "n < 10")
    case True
    then show ?thesis by (subst decimal.simps) (simp add: isdigit_def digit_value_char_of)
  next
    case False
    have d: "isdigit (char_of (48 + n mod 10))" by (simp add: isdigit_def)
    have ds: "\<forall>x \<in> set (decimal (n div 10)). isdigit x" using decimal_digits by blast
    have "int_digits b 0 (decimal n) = int_digits b 0 (decimal (n div 10) @ [char_of (48 + n mod 10)])"
      using False by (subst decimal.simps) simp
    also have "\<dots> = Some (the (int_digits True 0 (decimal (n div 10))) * 10
                          + digit_value (char_of (48 + n mod 10)))"
      by (rule int_digits_snoc[OF d ds])
    also have "\<dots> = Some (int (n div 10) * 10 + int (n mod 10))"
      using "1.IH"[OF False, of True] by (simp add: digit_value_char_of)
    also have "int (n div 10) * 10 + int (n mod 10) = int n" by presburger
    finally show ?thesis .
  qed
qed

lemma strip_decimal: "strip_chars isspace (decimal n) = decimal n"
proof -
  have nd: "\<And>c. isdigit c \<Longrightarrow> \<not> isspace c"
    by (auto simp: isdigit_def isspace_def Let_def)
  obtain x xs where d: "decimal n = x # xs" using decimal_not_Nil[of n] by (cases "decimal n") auto
  then have x: "\<not> isspace x" using decimal_digits[of x n] nd by simp
  have "rev (decimal n) \<noteq> []" using decimal_not_Nil by simp
  then obtain y ys where r: "rev (decimal n) = y # ys" by (cases "rev (decimal n)") auto
  then have "y \<in> set (decimal n)" by (metis list.set_intros(1) set_rev)
  then have y: "\<not> isspace y" using decimal_digits nd by blast
  have "dropWhile isspace (decimal n) = decimal n" using d x by simp
  moreover have "dropWhile isspace (rev (decimal n)) = rev (decimal n)" using r y by simp
  ultimately show ?thesis by (simp add: strip_chars_def)
qed

lemma py_int_decimal: "py_int (decimal n) = Some (int n)"
proof -
  obtain x xs where d: "decimal n = x # xs" using decimal_not_Nil[of n] by (cases "decimal n") auto
  then have "isdigit x" using decimal_digits[of x n] by simp
  then have x: "x \<noteq> CHR ''-''" "x \<noteq> CHR ''+''" by (auto simp: isdigit_def)
  have s: "strip_chars isspace (decimal n) = x # xs" using strip_decimal[of n] d by simp
  have i: "int_digits False 0 (x # xs) = Some (int n)"
    using int_digits_decimal[of False n] unfolding d .
  show ?thesis unfolding py_int_def s using x i by (simp del: int_digits.simps)
qed

lemma marker_not_digit:
  "c \<in> {CHR ''H'', CHR ''M'', CHR ''S''} \<Longrightarrow> c \<notin> set (decimal n)"
  using decimal_digits[of c n] by (auto simp: isdigit_def)

lemma before_component: 
  "c \<in> {CHR ''H'', CHR ''M'', CHR ''S''} \<Longrightarrow> before c (decimal n @ c # rest) = decimal n"
  using marker_not_digit[of c n] by (simp add: before_def takeWhile_append)

lemma after_component:
  "c \<in> {CHR ''H'', CHR ''M'', CHR ''S''} \<Longrightarrow> after c (decimal n @ c # rest) = rest"
  using marker_not_digit[of c n] by (simp add: after_def dropWhile_append)

lemma set_component:
  "set (component n c) \<subseteq> insert c {x. isdigit x}"
  using decimal_digits by (auto simp: component_def split: option.splits)

lemma marker_absent:
  "c \<in> {CHR ''H'', CHR ''M'', CHR ''S''} \<Longrightarrow> c \<noteq> c' \<Longrightarrow> c \<notin> set (component n c')"
  using set_component[of n c'] by (auto simp: isdigit_def)

text \<open>
  On a duration of the expected form \<open>PT[nH][nM][nS]\<close>, with any of the three components
  present, the parser returns \<open>hours * 3600 + minutes * 60 + seconds\<close>.
\<close>

lemma parse_duration_well_formed:
  "parse_duration (''PT'' @ component h CHR ''H'' @ component m CHR ''M'' @ component s CHR ''S'')
   = amount h * 3600 + amount m * 60 + amount s"
proof -
  have H: "CHR ''H'' \<notin> set (component m CHR ''M'' @ component s CHR ''S'')"
    using marker_absent[of "CHR ''H''" "CHR ''M''" m] marker_absent[of "CHR ''H''" "CHR ''S''" s]
    by simp
  have M: "CHR ''M'' \<notin> set (component s CHR ''S'')"
    using marker_absent[of "CHR ''M''" "CHR ''S''" s] by simp
  show ?thesis
    by (cases h; cases m; cases s)
      (use H M in \<open>simp_all add: parse_duration_def parse_duration_try_def startswith_def
        component_def amount_def before_component after_component py_int_decimal\<close>)
qed

section \<open>Results: the filter pipeline\<close>

lemma too_old_iff:
  "is_video_too_old clk (dict_get (published_at v) '''') (max_age_days p)
   \<longleftrightarrow> (\<bar>max_age_days p\<bar> \<le> 999999999 \<and> older_than_max_age clk p v)"
  by (auto simp: is_video_too_old_def older_than_max_age_def age_of_def dict_get_def
      timedelta_days_def split: option.splits)

lemma loop_filter:
  "apply_preference_filters_loop clk p vs acc = acc @ filter (\<lambda>v. \<not> excluded clk p v) vs"
proof (induction vs arbitrary: acc)
  case Nil
  show ?case by simp
next
  case (Cons v vs)
  have ex: "excluded clk p v \<longleftrightarrow>
     (dict_get (channel v) '''' \<in> set (exclude_channels p)
      \<or> (parse_duration (dict_get (duration v) ''PT0M0S'') < min_duration p
          \<or> parse_duration (dict_get (duration v) ''PT0M0S'') > max_duration p)
      \<or> dict_get (view_count v) 0 < min_views p
      \<or> is_video_too_old clk (dict_get (published_at v) '''') (max_age_days p)
      \<or> list_ex (\<lambda>keyword.
                  sublist (lower keyword) (lower (dict_get (title v) ''''))
                \<or> sublist (lower keyword) (lower (dict_get (description v) '''')))
                (disliked_keywords p))"
    unfolding excluded_def too_old_iff channel_excluded_def duration_out_of_range_def
      too_few_views_def has_disliked_keyword_def list_ex_iff by blast
  show ?case
  proof (cases "excluded clk p v")
    case True
    then show ?thesis using Cons.IH[of acc] ex by auto
  next
    case False
    then show ?thesis using Cons.IH[of "acc @ [v]"] ex by auto
  qed
qed

lemma excluded_as_specified_iff:
  "\<bar>max_age_days p\<bar> \<le> 999999999 \<Longrightarrow> excluded clk p v \<longleftrightarrow> excluded_as_specified clk p v"
  by (simp add: excluded_def excluded_as_specified_def)

text \<open>
  C1, as amended. For every clock, every sequence of videos and every PreferenceSet, the
  filter returns the order-preserving subsequence of exactly the videos for which none of
  five exclusion predicates holds: the channel is in \<open>exclude_channels\<close>; the parsed
  duration is below \<open>min_duration\<close> or above \<open>max_duration\<close>; \<open>view_count\<close> is below
  \<open>min_views\<close>; the time since \<open>published_at\<close> is longer than \<open>max_age_days\<close> days and
  \<open>max_age_days\<close> has a magnitude of at most 999999999; a disliked keyword, case-folded,
  is a substring of the case-folded title or description. A video with a missing, empty
  or unparseable \<open>published_at\<close> passes the age predicate, and so does every video when
  \<open>max_age_days\<close> is beyond that magnitude. The result is a new list; the function assigns
  to neither of its arguments.
\<close>

theorem filter_pipeline:
  "apply_preference_filters clk p vs = filter (\<lambda>v. \<not> excluded clk p v) vs"
  by (simp add: apply_preference_filters_def loop_filter)

lemma example_durations:
  "parse_duration ''PT5M'' = 300" "parse_duration ''PT45S'' = 45"
  by code_simp+

lemma example_lower:
  "lower ''ASMR'' = ''asmr''" "lower ''Hello'' = ''hello''" "lower ''New year'' = ''new year''"
  "lower ''Relaxing asmr sounds'' = ''relaxing asmr sounds''" "lower '''' = ''''"
  by code_simp+

lemma example_sublist:
  "\<not> sublist ''asmr'' ''hello''" "\<not> sublist ''asmr'' ''''" "\<not> sublist ''asmr'' ''new year''"
  "sublist ''asmr'' ''relaxing asmr sounds''"
  by code_simp+

lemma example_replace: "replace_Z ''2020-01-01T00:00:00Z'' = ''2020-01-01T00:00:00+00:00''"
  "replace_Z ''yesterday'' = ''yesterday''"
  by code_simp+

theorem filter_pipeline_witness:
  "apply_preference_filters example_clock strict_preferences candidate_videos
     = [candidate_videos ! 0, candidate_videos ! 6]"
  unfolding filter_pipeline
  by (simp add: candidate_videos_def strict_preferences_def default_preferences_def
      example_clock_def old_video_def video_def excluded_def channel_excluded_def
      duration_out_of_range_def too_few_views_def older_than_max_age_def age_of_def
      has_disliked_keyword_def dict_get_def example_durations example_lower example_sublist
      example_replace)

theorem filter_age_counterexample:
  "apply_preference_filters example_clock unrepresentable_age_preferences [old_video] = [old_video]
   \<and> age_of example_clock old_video = Some (2501 * 86400000000)
   \<and> max_age_days unrepresentable_age_preferences = - 1000000000
   \<and> excluded_as_specified example_clock unrepresentable_age_preferences old_video"
proof -
  have a: "apply_preference_filters example_clock unrepresentable_age_preferences [old_video] = [old_video]"
    by (simp add: apply_preference_filters_def unrepresentable_age_preferences_def
      default_preferences_def example_clock_def old_video_def video_def dict_get_def
      is_video_too_old_def timedelta_days_def example_durations example_replace)
  have b: "excluded_as_specified example_clock unrepresentable_age_preferences old_video"
    by (simp add: excluded_as_specified_def older_than_max_age_def age_of_def
      unrepresentable_age_preferences_def
      default_preferences_def example_clock_def old_video_def video_def example_replace)
  have c: "age_of example_clock old_video = Some (2501 * 86400000000)"
    by (simp add: age_of_def example_clock_def old_video_def video_def example_replace)
  have d: "max_age_days unrepresentable_age_preferences = - 1000000000"
    by (simp add: unrepresentable_age_preferences_def)
  from a b c d show ?thesis by simp
qed

section \<open>Results: the learning rules\<close>

lemma learn_category_frame:
  "preferred_channels (learn_category v a p) = preferred_channels p"
  "preferred_keywords (learn_category v a p) = preferred_keywords p"
  "min_duration (learn_category v a p) = min_duration p"
  "max_duration (learn_category v a p) = max_duration p"
  by (simp_all add: learn_category_def Let_def)

lemma learn_channel_frame:
  "preferred_keywords (learn_channel v a p) = preferred_keywords p"
  "min_duration (learn_channel v a p) = min_duration p"
  "max_duration (learn_channel v a p) = max_duration p"
  by (simp_all add: learn_channel_def Let_def)

lemma learn_duration_frame:
  "preferred_channels (learn_duration v a p) = preferred_channels p"
  "preferred_keywords (learn_duration v a p) = preferred_keywords p"
  by (simp_all add: learn_duration_def Let_def)

lemma learn_keywords_frame:
  "preferred_channels (learn_keywords v a p) = preferred_channels p"
  "min_duration (learn_keywords v a p) = min_duration p"
  "max_duration (learn_keywords v a p) = max_duration p"
  by (simp_all add: learn_keywords_def Let_def)

lemma learn_keywords_result:
  "preferred_keywords (learn_keywords v a p) =
     (if lower (dict_get (title v) '''') \<noteq> [] \<and> a \<in> {''clicked'', ''liked''}
      then fold add_keyword (title_words (lower (dict_get (title v) ''''))) (preferred_keywords p)
      else preferred_keywords p)"
  by (simp add: learn_keywords_def Let_def)

lemma learn_duration_result:
  "min_duration (learn_duration v a p) =
     (if parse_duration (dict_get (duration v) ''PT0M0S'') > 0 \<and> a \<in> {''watched'', ''liked''}
         \<and> parse_duration (dict_get (duration v) ''PT0M0S'') < min_duration p
      then max 0 (min_duration p - 60) else min_duration p)"
  "max_duration (learn_duration v a p) =
     (if parse_duration (dict_get (duration v) ''PT0M0S'') > 0 \<and> a \<in> {''watched'', ''liked''}
         \<and> parse_duration (dict_get (duration v) ''PT0M0S'') > max_duration p
      then min 14400 (max_duration p + 300) else max_duration p)"
  by (auto simp: learn_duration_def Let_def)

lemma channels_learn_rules:
  "preferred_channels (learn_rules p v a) = preferred_channels (learn_channel v a p)"
  by (simp add: learn_rules_def learn_keywords_frame learn_duration_frame learn_category_frame)

lemma keywords_learn_rules:
  "preferred_keywords (learn_rules p v a) =
     (if lower (dict_get (title v) '''') \<noteq> [] \<and> a \<in> {''clicked'', ''liked''}
      then fold add_keyword (title_words (lower (dict_get (title v) ''''))) (preferred_keywords p)
      else preferred_keywords p)"
  unfolding learn_rules_def learn_keywords_result
  by (simp only: learn_duration_frame learn_category_frame learn_channel_frame)

lemma min_duration_learn_rules:
  "min_duration (learn_rules p v a) =
     (if parse_duration (dict_get (duration v) ''PT0M0S'') > 0 \<and> a \<in> {''watched'', ''liked''}
         \<and> parse_duration (dict_get (duration v) ''PT0M0S'') < min_duration p
      then max 0 (min_duration p - 60) else min_duration p)"
  unfolding learn_rules_def learn_keywords_frame learn_duration_result
  by (simp only: learn_category_frame learn_channel_frame)

lemma max_duration_learn_rules:
  "max_duration (learn_rules p v a) =
     (if parse_duration (dict_get (duration v) ''PT0M0S'') > 0 \<and> a \<in> {''watched'', ''liked''}
         \<and> parse_duration (dict_get (duration v) ''PT0M0S'') > max_duration p
      then min 14400 (max_duration p + 300) else max_duration p)"
  unfolding learn_rules_def learn_keywords_frame learn_duration_result
  by (simp only: learn_category_frame learn_channel_frame)

lemma last_n_short: "length xs \<le> n \<Longrightarrow> last_n n xs = xs"
  by (simp add: last_n_def)

lemma length_last_n: "length (last_n n xs) = min n (length xs)"
  by (simp add: last_n_def)

lemma last_n_append_last_n: "last_n n (last_n n xs @ ys) = last_n n (xs @ ys)"
proof -
  have "length xs + length ys - (length xs - n + n) + (length xs - n) = length xs + length ys - n"
    by arith
  then show ?thesis by (simp add: last_n_def)
qed

lemma distinct_last_n: "distinct xs \<Longrightarrow> distinct (last_n n xs)"
  by (simp add: last_n_def)

lemma set_last_n: "set (last_n n xs) \<subseteq> set xs"
  by (simp add: last_n_def set_drop_subset)

lemma learn_channel_new:
  assumes "ch \<noteq> []" "ch \<notin> set (preferred_channels p)"
    "a \<in> {''clicked'', ''liked'', ''watched''}" "channel v = Some ch"
  shows "preferred_channels (learn_channel v a p) = last_n 50 (preferred_channels p @ [ch])"
proof -
  have g: "dict_get (channel v) '''' = ch" using assms(4) by (simp add: dict_get_def)
  show ?thesis
  proof (cases "length (preferred_channels p @ [ch]) > 50")
    case True
    then show ?thesis using assms(1,2,3) unfolding learn_channel_def g Let_def by simp
  next
    case False
    then have "last_n 50 (preferred_channels p @ [ch]) = preferred_channels p @ [ch]"
      by (intro last_n_short) simp
    then show ?thesis using False assms(1,2,3) unfolding learn_channel_def g Let_def by simp
  qed
qed

lemma learn_channel_known:
  assumes "dict_get (channel v) '''' \<in> set (preferred_channels p)"
  shows "preferred_channels (learn_channel v a p) = preferred_channels p"
  using assms by (simp add: learn_channel_def Let_def)

lemma learn_channel_length:
  assumes "length (preferred_channels p) \<le> 50"
  shows "length (preferred_channels (learn_channel v a p)) \<le> 50"
  using assms unfolding learn_channel_def Let_def by (simp add: length_last_n)

lemma learn_all_length:
  "length (preferred_channels p) \<le> 50 \<Longrightarrow> length (preferred_channels (learn_all p es)) \<le> 50"
proof (induction es arbitrary: p)
  case Nil
  then show ?case by simp
next
  case (Cons e es)
  obtain v a where e: "e = (v, a)" by (cases e)
  have "length (preferred_channels (learn_rules p v a)) \<le> 50"
    using Cons.prems by (simp add: channels_learn_rules learn_channel_length)
  from Cons.IH[OF this] show ?case by (simp add: e)
qed

lemma learn_all_channels:
  assumes "distinct (preferred_channels p @ cs)" "[] \<notin> set cs" "map channel vs = map Some cs"
    "a \<in> {''clicked'', ''liked'', ''watched''}" "length (preferred_channels p) \<le> 50"
  shows "preferred_channels (learn_all p (map (\<lambda>v. (v, a)) vs))
         = last_n 50 (preferred_channels p @ cs)"
  using assms
proof (induction vs arbitrary: p cs)
  case Nil
  then show ?case by (simp add: last_n_short)
next
  case (Cons v vs)
  from Cons.prems(3) obtain c cs' where cs: "cs = c # cs'" and c: "channel v = Some c"
    and rest: "map channel vs = map Some cs'" by (cases cs) auto
  let ?p = "learn_rules p v a"
  have c_new: "c \<notin> set (preferred_channels p)" "c \<noteq> []"
    using Cons.prems(1,2) cs by auto
  have pc: "preferred_channels ?p = last_n 50 (preferred_channels p @ [c])"
    using learn_channel_new[OF c_new(2) c_new(1) Cons.prems(4) c] by (simp add: channels_learn_rules)
  have "distinct (preferred_channels p @ [c])" "distinct cs'"
    "set (preferred_channels p @ [c]) \<inter> set cs' = {}"
    using Cons.prems(1) cs by auto
  then have d: "distinct (preferred_channels ?p @ cs')"
    using set_last_n[of 50 "preferred_channels p @ [c]"]
      distinct_last_n[of "preferred_channels p @ [c]" 50]
    unfolding pc distinct_append by blast
  have l: "length (preferred_channels ?p) \<le> 50" by (simp add: pc length_last_n)
  have "preferred_channels (learn_all ?p (map (\<lambda>v. (v, a)) vs))
        = last_n 50 (preferred_channels ?p @ cs')"
    using Cons.IH[OF d _ rest Cons.prems(4) l] Cons.prems(2) cs by simp
  then show ?case by (simp add: pc cs last_n_append_last_n)
qed

lemma fold_add_keyword:
  "\<exists>added. fold add_keyword ws kws = kws @ added
     \<and> subseq added ws \<and> distinct added
     \<and> set added \<inter> (set kws \<union> set common_words) = {}
     \<and> length (kws @ added) \<le> max 100 (length kws)
     \<and> (length (kws @ added) < 100 \<longrightarrow> set added = set ws - set common_words - set kws)"
proof (induction ws arbitrary: kws)
  case Nil
  show ?case by simp
next
  case (Cons w ws)
  show ?case
  proof (cases "w \<notin> set common_words \<and> w \<notin> set kws \<and> length kws < 100")
    case True
    then have step: "add_keyword w kws = kws @ [w]" by (simp add: add_keyword_def)
    from Cons.IH[of "kws @ [w]"] obtain added where
      f: "fold add_keyword ws (kws @ [w]) = (kws @ [w]) @ added"
      and s: "subseq added ws" and d: "distinct added"
      and i: "set added \<inter> (set (kws @ [w]) \<union> set common_words) = {}"
      and l: "length ((kws @ [w]) @ added) \<le> max 100 (length (kws @ [w]))"
      and c: "length ((kws @ [w]) @ added) < 100 \<longrightarrow>
              set added = set ws - set common_words - set (kws @ [w])"
      by blast
    have 1: "fold add_keyword (w # ws) kws = kws @ (w # added)" using f step by simp
    have 2: "subseq (w # added) (w # ws)" using s by simp
    have 3: "distinct (w # added)" using d i by auto
    have 4: "set (w # added) \<inter> (set kws \<union> set common_words) = {}" using i True by auto
    have 5: "length (kws @ (w # added)) \<le> max 100 (length kws)" using l True by auto
    have 6: "length (kws @ (w # added)) < 100 \<longrightarrow>
             set (w # added) = set (w # ws) - set common_words - set kws"
      using c True by auto
    from 1 2 3 4 5 6 show ?thesis by blast
  next
    case False
    then have step: "add_keyword w kws = kws" by (auto simp: add_keyword_def)
    from Cons.IH[of kws] obtain added where
      f: "fold add_keyword ws kws = kws @ added"
      and s: "subseq added ws" and d: "distinct added"
      and i: "set added \<inter> (set kws \<union> set common_words) = {}"
      and l: "length (kws @ added) \<le> max 100 (length kws)"
      and c: "length (kws @ added) < 100 \<longrightarrow> set added = set ws - set common_words - set kws"
      by blast
    have 1: "fold add_keyword (w # ws) kws = kws @ added" using f step by simp
    have 2: "subseq added (w # ws)" using s by (rule list_emb_Cons)
    have 6: "length (kws @ added) < 100 \<longrightarrow>
             set added = set (w # ws) - set common_words - set kws"
      using c False by auto
    from 1 2 d i l 6 show ?thesis by blast
  qed
qed

lemma set_title_words:
  "set (title_words t) =
     {strip_chars (\<lambda>c. c \<in> set ''.,!?()[]'') w | w. w \<in> set (split_whitespace t) \<and> 3 < length w}"
  by (auto simp: title_words_def)

lemma lower_eq_Nil: "lower s = [] \<longleftrightarrow> s = []"
  by (simp add: lower_def)

text \<open>
  C5, as amended. On a learn call with action \<open>clicked\<close> or \<open>liked\<close> and a non-empty title,
  the title is case-folded and split on whitespace; the tokens of more than three
  characters, counted before any punctuation is stripped, are kept and then stripped of
  surrounding \<open>.,!?()[]\<close>. The call appends to \<open>preferred_keywords\<close>, in title order and
  each once, stripped tokens that are neither in the stoplist nor already in the list; it
  appends only while the list has fewer than 100 entries, never changes an entry already
  there, and while the list stays below 100 entries it appends every such token.
\<close>

theorem keyword_extraction:
  assumes "a \<in> {''clicked'', ''liked''}" and "dict_get (title v) '''' \<noteq> []"
  shows "\<exists>added.
      preferred_keywords (learn_rules p v a) = preferred_keywords p @ added
    \<and> subseq added (title_words (lower (dict_get (title v) '''')))
    \<and> distinct added
    \<and> set added \<inter> (set (preferred_keywords p) \<union> set common_words) = {}
    \<and> set added \<subseteq>
        {strip_chars (\<lambda>c. c \<in> set ''.,!?()[]'') w | w.
           w \<in> set (split_whitespace (lower (dict_get (title v) ''''))) \<and> 3 < length w}
    \<and> length (preferred_keywords (learn_rules p v a)) \<le> max 100 (length (preferred_keywords p))
    \<and> (length (preferred_keywords (learn_rules p v a)) < 100 \<longrightarrow>
         set added =
           {strip_chars (\<lambda>c. c \<in> set ''.,!?()[]'') w | w.
              w \<in> set (split_whitespace (lower (dict_get (title v) ''''))) \<and> 3 < length w}
           - set common_words - set (preferred_keywords p))"
proof -
  let ?t = "lower (dict_get (title v) '''')"
  have k: "preferred_keywords (learn_rules p v a) = fold add_keyword (title_words ?t) (preferred_keywords p)"
    using assms by (simp add: keywords_learn_rules lower_eq_Nil)
  from fold_add_keyword[of "title_words ?t" "preferred_keywords p"] obtain added where
    f: "fold add_keyword (title_words ?t) (preferred_keywords p) = preferred_keywords p @ added"
    and s: "subseq added (title_words ?t)" and d: "distinct added"
    and i: "set added \<inter> (set (preferred_keywords p) \<union> set common_words) = {}"
    and l: "length (preferred_keywords p @ added) \<le> max 100 (length (preferred_keywords p))"
    and c: "length (preferred_keywords p @ added) < 100 \<longrightarrow>
            set added = set (title_words ?t) - set common_words - set (preferred_keywords p)"
    by blast
  have sub: "set added \<subseteq> set (title_words ?t)"
  proof
    fix x assume "x \<in> set added"
    with s show "x \<in> set (title_words ?t)" by (auto elim: list_emb_set)
  qed
  show ?thesis
    unfolding k f set_title_words[symmetric] using s d i l c sub by blast
qed

theorem keyword_length_counterexample:
  "preferred_keywords (learn_rules default_preferences punctuated_video ''clicked'') = [''ab'', '''']
   \<and> \<not> 3 < length ''ab''"
  by (simp add: keywords_learn_rules punctuated_video_def video_def dict_get_def
      default_preferences_def lower_def lower_char_def title_words_def split_whitespace_def
      isspace_def strip_chars_def add_keyword_def common_words_def)

theorem keyword_extraction_witness:
  "''clicked'' \<in> {''clicked'', ''liked''} \<and> dict_get (title greeting_video) '''' \<noteq> []
   \<and> (\<exists>added. preferred_keywords (learn_rules default_preferences greeting_video ''clicked'')
          = preferred_keywords default_preferences @ added
        \<and> distinct added
        \<and> set added \<inter> (set (preferred_keywords default_preferences) \<union> set common_words) = {})
   \<and> length (preferred_keywords (learn_rules default_preferences greeting_video ''clicked'')) \<le> 100"
proof -
  have a: "''clicked'' \<in> {''clicked'', ''liked''}" by simp
  have b: "dict_get (title greeting_video) '''' \<noteq> []"
    by (simp add: greeting_video_def video_def dict_get_def)
  have c: "length (preferred_keywords default_preferences) = 0"
    by (simp add: default_preferences_def)
  from keyword_extraction[OF a b, of default_preferences] a b c show ?thesis
    by (auto simp: max_def)
qed

lemma keywords_not_learned:
  assumes "a \<notin> {''clicked'', ''liked''} \<or> dict_get (title v) '''' = []"
  shows "preferred_keywords (learn_rules p v a) = preferred_keywords p"
  using assms by (auto simp: keywords_learn_rules lower_eq_Nil)

section \<open>Results: the engine on a working database\<close>

lemma overlay_rows_of: "fold overlay_row (rows_of p) d = p"
  by (cases p, cases d) (simp add: rows_of_def)

lemma get_preferences_stored:
  "select_preferences sq (database st) = Inr (rows_of p) \<Longrightarrow> get_preferences sq st = p"
  by (simp add: get_preferences_def overlay_rows_of)

lemma get_preferences_no_rows:
  "select_preferences sq (database st) = Inr [] \<Longrightarrow>
   get_preferences sq st = self_default_preferences st"
  by (simp add: get_preferences_def)

lemma learn_from_interaction_stores:
  "replace_preferences sq (rows_of (learn_rules (get_preferences sq st) v a)) (database st) = Inr db \<Longrightarrow>
   database (learn_from_interaction sq v a st) = db"
  by (simp add: learn_from_interaction_def update_preferences_def Let_def)

lemma learn_from_interaction_update_fails:
  "replace_preferences sq (rows_of (learn_rules (get_preferences sq st) v a)) (database st) = Inl e \<Longrightarrow>
   database (learn_from_interaction sq v a st) = database st"
  by (simp add: learn_from_interaction_def update_preferences_def Let_def)

lemma row_key_rows_of: "row_key r \<in> set (map row_key (rows_of p))"
  by (cases r) (simp_all add: rows_of_def)

lemma upsert_rows_of: "upsert_rows (rows_of p) old = rows_of p"
proof -
  have "filter (\<lambda>r. row_key r \<notin> set (map row_key (rows_of p))) old = []"
    unfolding filter_empty_conv using row_key_rows_of by blast
  then show ?thesis by (simp only: upsert_rows_def append_Nil)
qed

lemma learn_rules_other_action:
  "a \<notin> {''clicked'', ''liked'', ''watched''} \<Longrightarrow> learn_rules p v a = p"
  by (simp add: learn_rules_def learn_keywords_def learn_duration_def learn_category_def
      learn_channel_def Let_def)

lemma working_learn_from_interaction:
  "get_preferences working_sqlite (learn_from_interaction working_sqlite v a st)
   = learn_rules (get_preferences working_sqlite st) v a"
  by (simp add: learn_from_interaction_def update_preferences_def get_preferences_def
      working_sqlite_def Let_def upsert_rows_of overlay_rows_of)

lemma working_record_interaction:
  "get_preferences working_sqlite (snd (record_interaction working_sqlite v a query st))
   = learn_rules (get_preferences working_sqlite st) v a"
proof (cases "a \<in> {''clicked'', ''liked'', ''watched''}")
  case True
  let ?st1 = "st\<lparr>database := (database st)\<lparr>interaction_rows :=
                 interaction_rows (database st) @ [interaction_of v a query]\<rparr>\<rparr>"
  have g: "get_preferences working_sqlite ?st1 = get_preferences working_sqlite st"
    by (simp add: get_preferences_def working_sqlite_def)
  have "snd (record_interaction working_sqlite v a query st)
        = learn_from_interaction working_sqlite v a ?st1"
    using True by (simp add: record_interaction_def record_interaction_try_def working_sqlite_def)
  then show ?thesis by (simp only: working_learn_from_interaction g)
next
  case False
  then have "get_preferences working_sqlite (snd (record_interaction working_sqlite v a query st))
             = get_preferences working_sqlite st"
    by (simp add: record_interaction_def record_interaction_try_def working_sqlite_def
        get_preferences_def)
  then show ?thesis using learn_rules_other_action[OF False] by simp
qed

lemma working_record_all:
  "get_preferences working_sqlite (record_all working_sqlite events st)
   = learn_all (get_preferences working_sqlite st) events"
proof (induction events arbitrary: st)
  case Nil
  show ?case by simp
next
  case (Cons e es)
  obtain v a where e: "e = (v, a)" by (cases e)
  show ?case by (simp add: e Cons.IH working_record_interaction)
qed

lemma new_engine_preferences: "get_preferences working_sqlite new_engine = default_preferences"
  by (simp add: get_preferences_def working_sqlite_def new_engine_def)

text \<open>
  When the write of the learned preferences fails, the exception is swallowed, nothing is
  stored, and yet the next read returns the new channel: the list of
  \<open>self.default_preferences\<close> was shared and has been appended to. The slice that caps the
  list is assigned to the copy only, so the shared list is not capped.
\<close>

lemma failed_update_changes_defaults:
  "database (record_all no_write_sqlite
      [(video ''1'' ''A'' '''', ''clicked''), (video ''2'' ''B'' '''', ''clicked'')] fresh_engine) = ()
   \<and> preferred_channels (get_preferences no_write_sqlite (record_all no_write_sqlite
      [(video ''1'' ''A'' '''', ''clicked''), (video ''2'' ''B'' '''', ''clicked'')] fresh_engine))
     = [''A'', ''B'']"
  by (simp add: record_interaction_def record_interaction_try_def learn_from_interaction_def
      update_preferences_def get_preferences_def shares_default_def channel_appended_def
      no_write_sqlite_def fresh_engine_def default_preferences_def video_def dict_get_def
      learn_rules_def learn_channel_def learn_category_def learn_duration_def learn_keywords_def
      example_durations lower_def Let_def)

section \<open>Results: the channel cap and the duration bounds\<close>

lemma learn_channel_length_max:
  "length (preferred_channels (learn_channel v a p)) \<le> max 50 (length (preferred_channels p))"
  unfolding learn_channel_def Let_def by (simp add: length_last_n)

lemma last_n_51: "length xs = 50 \<Longrightarrow> last_n 50 (xs @ [c]) = tl xs @ [c]"
  by (cases xs) (simp_all add: last_n_def)

lemma example_channel_names:
  "distinct (channel_names 60)" "[] \<notin> set (channel_names 60)" "length (channel_names 60) = 60"
  "map channel (channel_videos 60) = map Some (channel_names 60)"
  by (auto simp: channel_names_def channel_videos_def video_def distinct_map inj_on_def)

text \<open>
  C6. A learn call never leaves more than 50 preferred channels unless there were more
  before it: the list after the call is no longer than the larger of 50 and its length
  before. So a list of at most 50 entries, such as the default, stays at most 50 entries
  long through every sequence of learn calls, and so does the list that an engine with
  a working database returns after any sequence of \<open>record_interaction\<close> calls. Learning \<open>clicked\<close> on 60 videos of 60
  distinct non-empty channels, starting from the defaults, leaves exactly 50 entries: the
  last 50 channels in the order they were learned, the first 10 dropped.
\<close>

theorem preferred_channels_cap:
  "length (preferred_channels (learn_rules p v a)) \<le> max 50 (length (preferred_channels p))
   \<and> (length (preferred_channels p) \<le> 50 \<longrightarrow>
        length (preferred_channels (learn_all p events)) \<le> 50)
   \<and> length (preferred_channels (learn_all default_preferences events)) \<le> 50
   \<and> length (preferred_channels
        (get_preferences working_sqlite (record_all working_sqlite events new_engine))) \<le> 50
   \<and> (distinct cs \<and> [] \<notin> set cs \<and> length cs = 60 \<and> map channel vs = map Some cs \<longrightarrow>
        preferred_channels (learn_all default_preferences (map (\<lambda>v. (v, ''clicked'')) vs))
          = drop 10 cs
        \<and> length (preferred_channels
             (learn_all default_preferences (map (\<lambda>v. (v, ''clicked'')) vs))) = 50)"
proof -
  have 1: "length (preferred_channels (learn_rules p v a)) \<le> max 50 (length (preferred_channels p))"
    by (simp only: channels_learn_rules learn_channel_length_max)
  have 2: "length (preferred_channels p) \<le> 50 \<longrightarrow>
           length (preferred_channels (learn_all p events)) \<le> 50"
    by (simp add: learn_all_length)
  have 3: "length (preferred_channels (learn_all default_preferences events)) \<le> 50"
    by (rule learn_all_length) (simp add: default_preferences_def)
  have 4: "preferred_channels (learn_all default_preferences (map (\<lambda>v. (v, ''clicked'')) vs))
             = drop 10 cs
           \<and> length (preferred_channels
                (learn_all default_preferences (map (\<lambda>v. (v, ''clicked'')) vs))) = 50"
    if h: "distinct cs \<and> [] \<notin> set cs \<and> length cs = 60 \<and> map channel vs = map Some cs"
  proof -
    have d: "distinct (preferred_channels default_preferences @ cs)"
      using h by (simp add: default_preferences_def)
    have l: "length (preferred_channels default_preferences) \<le> 50"
      by (simp add: default_preferences_def)
    have "preferred_channels (learn_all default_preferences (map (\<lambda>v. (v, ''clicked'')) vs))
          = last_n 50 (preferred_channels default_preferences @ cs)"
      using h by (intro learn_all_channels[OF d _ _ _ l]) simp_all
    also have "\<dots> = drop 10 cs"
      using h by (simp add: default_preferences_def last_n_def)
    finally show ?thesis using h by simp
  qed
  have 5: "length (preferred_channels
        (get_preferences working_sqlite (record_all working_sqlite events new_engine))) \<le> 50"
    using 3 by (simp only: working_record_all new_engine_preferences)
  from 1 2 3 4 5 show ?thesis by blast
qed

theorem preferred_channels_cap_witness:
  "length (preferred_channels full_preferences) \<le> 50
   \<and> length (preferred_channels (learn_all full_preferences [(long_video, ''watched'')])) \<le> 50
   \<and> distinct (channel_names 60) \<and> [] \<notin> set (channel_names 60)
   \<and> length (channel_names 60) = 60
   \<and> map channel (channel_videos 60) = map Some (channel_names 60)
   \<and> preferred_channels
        (learn_all default_preferences (map (\<lambda>v. (v, ''clicked'')) (channel_videos 60)))
      = drop 10 (channel_names 60)
   \<and> length (preferred_channels
        (learn_all default_preferences (map (\<lambda>v. (v, ''clicked'')) (channel_videos 60)))) = 50"
proof -
  have a: "length (preferred_channels full_preferences) \<le> 50"
    by (simp add: full_preferences_def channel_names_def)
  from a example_channel_names
    preferred_channels_cap[of full_preferences long_video "''watched''"
      "[(long_video, ''watched'')]" "channel_names 60" "channel_videos 60"]
  show ?thesis by blast
qed

text \<open>
  C9. A learn call on a video whose channel is already in \<open>preferred_channels\<close> leaves the
  list as it is: the channel keeps its position. A later call that adds a new channel to
  a full list of 50 therefore drops the entry at the head of the list as it stood before
  both calls, whether or not the first call was an interaction with that entry.
\<close>

theorem known_channel_not_moved:
  assumes "dict_get (channel v) '''' \<in> set (preferred_channels p)"
  shows "preferred_channels (learn_rules p v a) = preferred_channels p
    \<and> (length (preferred_channels p) = 50 \<and> channel v' = Some c' \<and> c' \<noteq> []
         \<and> c' \<notin> set (preferred_channels p) \<and> a' \<in> {''clicked'', ''liked'', ''watched''} \<longrightarrow>
        preferred_channels (learn_rules (learn_rules p v a) v' a')
          = tl (preferred_channels p) @ [c'])"
proof -
  have same: "preferred_channels (learn_rules p v a) = preferred_channels p"
    using assms by (simp only: channels_learn_rules learn_channel_known)
  have "preferred_channels (learn_rules (learn_rules p v a) v' a') = tl (preferred_channels p) @ [c']"
    if h: "length (preferred_channels p) = 50 \<and> channel v' = Some c' \<and> c' \<noteq> []
         \<and> c' \<notin> set (preferred_channels p) \<and> a' \<in> {''clicked'', ''liked'', ''watched''}"
  proof -
    have "preferred_channels (learn_rules (learn_rules p v a) v' a')
          = last_n 50 (preferred_channels (learn_rules p v a) @ [c'])"
      unfolding channels_learn_rules[of "learn_rules p v a"]
      using h by (intro learn_channel_new) (simp_all add: same)
    then show ?thesis using h by (simp add: same last_n_51)
  qed
  with same show ?thesis by blast
qed

theorem known_channel_not_moved_witness:
  "dict_get (channel (video ''x'' ''c'' ''again'')) '''' \<in> set (preferred_channels full_preferences)
   \<and> preferred_channels (learn_rules full_preferences (video ''x'' ''c'' ''again'') ''liked'')
       = preferred_channels full_preferences
   \<and> preferred_channels
       (learn_rules (learn_rules full_preferences (video ''x'' ''c'' ''again'') ''liked'')
          (video ''y'' ''new'' ''other'') ''clicked'')
     = tl (preferred_channels full_preferences) @ [''new'']
   \<and> hd (preferred_channels full_preferences) = ''c''"
proof -
  have a: "dict_get (channel (video ''x'' ''c'' ''again'')) '''' \<in> set (preferred_channels full_preferences)"
    by (simp add: full_preferences_def channel_names_def video_def dict_get_def upt_rec[of 0])
  have b: "length (preferred_channels full_preferences) = 50"
    by (simp add: full_preferences_def channel_names_def)
  have c: "channel (video ''y'' ''new'' ''other'') = Some ''new''" by (simp add: video_def)
  have d: "''new'' \<notin> set (preferred_channels full_preferences)"
    by (auto simp: full_preferences_def channel_names_def)
  have e: "hd (preferred_channels full_preferences) = ''c''"
    by (simp add: full_preferences_def channel_names_def upt_rec[of 0] )
  from known_channel_not_moved[OF a, of "''liked''" "video ''y'' ''new'' ''other''" "''new''" "''clicked''"]
    a b c d e show ?thesis by simp
qed

lemma learn_all_duration_bounds:
  "(0 \<le> min_duration p \<longrightarrow> 0 \<le> min_duration (learn_all p events))
   \<and> (max_duration p \<le> 14400 \<longrightarrow> max_duration (learn_all p events) \<le> 14400)"
proof (induction events arbitrary: p)
  case Nil
  show ?case by simp
next
  case (Cons e es)
  obtain v a where e: "e = (v, a)" by (cases e)
  have s1: "0 \<le> min_duration p \<longrightarrow> 0 \<le> min_duration (learn_rules p v a)"
    by (simp add: min_duration_learn_rules)
  have s2: "max_duration p \<le> 14400 \<longrightarrow> max_duration (learn_rules p v a) \<le> 14400"
    by (simp add: max_duration_learn_rules)
  from s1 s2 Cons.IH[of "learn_rules p v a"] show ?case by (simp add: e)
qed

text \<open>
  C7. A learn call changes \<open>min_duration\<close> only when the action is \<open>watched\<close> or \<open>liked\<close>,
  the parsed duration is positive and below \<open>min_duration\<close>, and then to
  \<open>max(0, min_duration - 60)\<close>; it changes \<open>max_duration\<close> only when the action is
  \<open>watched\<close> or \<open>liked\<close>, the parsed duration is positive and above \<open>max_duration\<close>, and then
  to \<open>min(14400, max_duration + 300)\<close>. Hence \<open>0 \<le> min_duration\<close> and
  \<open>max_duration \<le> 14400\<close> are kept by every sequence of learn calls, and hold after every
  sequence of learn calls that starts from the defaults, also for the preferences that an
  engine with a working database returns after any sequence of \<open>record_interaction\<close> calls.
\<close>

theorem duration_drift:
  "min_duration (learn_rules p v a) =
     (if 0 < parse_duration (dict_get (duration v) ''PT0M0S'') \<and> a \<in> {''watched'', ''liked''}
         \<and> parse_duration (dict_get (duration v) ''PT0M0S'') < min_duration p
      then max 0 (min_duration p - 60) else min_duration p)
   \<and> max_duration (learn_rules p v a) =
     (if 0 < parse_duration (dict_get (duration v) ''PT0M0S'') \<and> a \<in> {''watched'', ''liked''}
         \<and> parse_duration (dict_get (duration v) ''PT0M0S'') > max_duration p
      then min 14400 (max_duration p + 300) else max_duration p)
   \<and> (0 \<le> min_duration p \<longrightarrow> 0 \<le> min_duration (learn_all p events))
   \<and> (max_duration p \<le> 14400 \<longrightarrow> max_duration (learn_all p events) \<le> 14400)
   \<and> 0 \<le> min_duration (learn_all default_preferences events)
   \<and> max_duration (learn_all default_preferences events) \<le> 14400
   \<and> 0 \<le> min_duration
         (get_preferences working_sqlite (record_all working_sqlite events new_engine))
   \<and> max_duration
         (get_preferences working_sqlite (record_all working_sqlite events new_engine)) \<le> 14400"
proof -
  have d: "0 \<le> min_duration default_preferences" "max_duration default_preferences \<le> 14400"
    by (simp_all add: default_preferences_def)
  from learn_all_duration_bounds[of default_preferences events] d
  have b: "0 \<le> min_duration (learn_all default_preferences events)"
    "max_duration (learn_all default_preferences events) \<le> 14400" by blast+
  have e: "get_preferences working_sqlite (record_all working_sqlite events new_engine)
           = learn_all default_preferences events"
    by (simp only: working_record_all new_engine_preferences)
  from b e learn_all_duration_bounds[of p events] min_duration_learn_rules[of p v a]
    max_duration_learn_rules[of p v a]
  show ?thesis by presburger
qed

lemma example_durations2:
  "parse_duration ''PT45S'' = 45" "parse_duration ''PT3H'' = 10800"
  by code_simp+

theorem duration_drift_witness:
  "min_duration (learn_rules narrow_preferences short_video ''watched'') = 60
   \<and> max_duration (learn_rules narrow_preferences long_video ''liked'') = 7500
   \<and> max_duration (learn_rules narrow_preferences long_video ''clicked'') = 7200
   \<and> 0 \<le> min_duration narrow_preferences \<and> max_duration narrow_preferences \<le> 14400
   \<and> 0 \<le> min_duration (learn_all narrow_preferences [(short_video, ''watched''), (long_video, ''liked'')])
   \<and> max_duration (learn_all narrow_preferences [(short_video, ''watched''), (long_video, ''liked'')]) \<le> 14400"
proof -
  have a: "0 \<le> min_duration narrow_preferences" "max_duration narrow_preferences \<le> 14400"
    "min_duration narrow_preferences = 120" "max_duration narrow_preferences = 7200"
    by (simp_all add: narrow_preferences_def default_preferences_def)
  have b: "dict_get (duration short_video) ''PT0M0S'' = ''PT45S''"
    "dict_get (duration long_video) ''PT0M0S'' = ''PT3H''"
    by (simp_all add: short_video_def long_video_def video_def dict_get_def)
  from duration_drift[of narrow_preferences short_video "''watched''"
      "[(short_video, ''watched''), (long_video, ''liked'')]"]
    duration_drift[of narrow_preferences long_video "''liked''" "[]"]
    duration_drift[of narrow_preferences long_video "''clicked''" "[]"]
  show ?thesis by (simp add: a b example_durations2)
qed

section \<open>Results: ranking\<close>

lemma score_all_Inr:
  "score_all f vs = Inr scored \<Longrightarrow>
   map snd scored = vs \<and> (\<forall>x \<in> set scored. f (snd x) = Inr (fst x))"
proof (induction vs arbitrary: scored)
  case Nil
  then show ?case by simp
next
  case (Cons v vs)
  then show ?case by (auto split: sum.splits)
qed

lemma score_all_total:
  "(\<forall>v \<in> set vs. \<exists>k. f v = Inr k) \<Longrightarrow> \<exists>scored. score_all f vs = Inr scored"
  by (induction vs) (auto split: sum.splits)

lemma sort_reverse_stable:
  "filter (\<lambda>x. k x = c) (sort_reverse k xs) = filter (\<lambda>x. k x = c) xs"
  by (simp add: sort_reverse_def rev_filter[symmetric] sort_key_stable)

lemma sort_reverse_sorted: "sorted (rev (map k (sort_reverse k xs)))"
  by (simp add: sort_reverse_def rev_map[symmetric] sorted_sort_key)

lemma sort_reverse_mset: "mset (sort_reverse k xs) = mset xs"
  by (simp add: sort_reverse_def)

lemma rank_returns:
  "(\<forall>v \<in> set videos. \<exists>k. sc p q v = Inr k) \<Longrightarrow>
   \<exists>ranked. rank_by_preferences sc videos p q = Inr ranked"
  using score_all_total[of videos "sc p q"] by (auto simp: rank_by_preferences_def)

text \<open>
  C8. Whenever \<open>_rank_by_preferences\<close> returns (it does unless the scoring of a video
  raises), its output holds the videos of the input, in descending order of score, and
  for every score \<open>k\<close> the videos with score \<open>k\<close> stand in the output in the order they
  have in the input: videos with equal scores keep their relative order.
\<close>

theorem rank_stable:
  assumes "rank_by_preferences sc videos p q = Inr ranked"
  shows "filter (\<lambda>v. sc p q v = Inr k) ranked = filter (\<lambda>v. sc p q v = Inr k) videos
       \<and> mset ranked = mset videos
       \<and> (\<exists>ks. map (sc p q) ranked = map Inr ks \<and> sorted (rev ks))"
proof -
  from assms obtain scored where sa: "score_all (sc p q) videos = Inr scored"
    and r: "ranked = map snd (sort_reverse fst scored)"
    by (auto simp: rank_by_preferences_def split: sum.splits)
  from score_all_Inr[OF sa] have vs: "map snd scored = videos"
    and sc: "\<forall>x \<in> set scored. sc p q (snd x) = Inr (fst x)" by auto
  have set_sr: "set (sort_reverse fst scored) = set scored"
    by (simp add: sort_reverse_def)
  have "filter (\<lambda>v. sc p q v = Inr k) ranked
        = map snd (filter (\<lambda>x. sc p q (snd x) = Inr k) (sort_reverse fst scored))"
    by (simp add: r filter_map comp_def)
  also have "\<dots> = map snd (filter (\<lambda>x. fst x = k) (sort_reverse fst scored))"
    using sc set_sr by (intro arg_cong[where f = "map snd"] filter_cong) auto
  also have "\<dots> = map snd (filter (\<lambda>x. fst x = k) scored)"
    by (simp add: sort_reverse_stable)
  also have "\<dots> = map snd (filter (\<lambda>x. sc p q (snd x) = Inr k) scored)"
    using sc by (intro arg_cong[where f = "map snd"] filter_cong) auto
  also have "\<dots> = filter (\<lambda>v. sc p q v = Inr k) videos"
    by (simp add: vs[symmetric] filter_map comp_def)
  finally have stable:
    "filter (\<lambda>v. sc p q v = Inr k) ranked = filter (\<lambda>v. sc p q v = Inr k) videos" .
  have "mset ranked = image_mset snd (mset (sort_reverse fst scored))"
    by (simp add: r)
  also have "\<dots> = mset (map snd scored)"
    by (simp add: sort_reverse_mset)
  finally have perm: "mset ranked = mset videos" by (simp add: vs)
  have "map (sc p q) ranked = map Inr (map fst (sort_reverse fst scored))"
    using sc set_sr by (simp add: r)
  moreover have "sorted (rev (map fst (sort_reverse fst scored)))"
    by (rule sort_reverse_sorted)
  ultimately have "\<exists>ks. map (sc p q) ranked = map Inr ks \<and> sorted (rev ks)" by blast
  with stable perm show ?thesis by blast
qed

theorem rank_stable_witness:
  "rank_by_preferences score_by_views tied_videos default_preferences ''q''
     = Inr [tied_videos ! 1, tied_videos ! 0, tied_videos ! 2]
   \<and> filter (\<lambda>v. score_by_views default_preferences ''q'' v = Inr 5)
        [tied_videos ! 1, tied_videos ! 0, tied_videos ! 2]
     = [tied_videos ! 0, tied_videos ! 2]"
proof -
  have h: "rank_by_preferences score_by_views tied_videos default_preferences ''q''
           = Inr [tied_videos ! 1, tied_videos ! 0, tied_videos ! 2]"
    by (simp add: rank_by_preferences_def sort_reverse_def tied_videos_def score_by_views_def
        video_def dict_get_def)
  have f: "filter (\<lambda>v. score_by_views default_preferences ''q'' v = Inr 5) tied_videos
           = [tied_videos ! 0, tied_videos ! 2]"
    by (simp add: tied_videos_def score_by_views_def video_def dict_get_def)
  from rank_stable[OF h, of 5] h f show ?thesis by simp
qed

section \<open>Results: search, trending and recommendations\<close>

lemma search_source_raises:
  "youtube_search_videos env q (min (n * 2) 50) w = (Inl e, w1) \<Longrightarrow> search env q n w = (Inl e, w1)"
  by (simp add: search_def)

lemma search_get_preferences_raises:
  "youtube_search_videos env q (min (n * 2) 50) w = (Inr raw, w1) \<Longrightarrow>
   engine_get_preferences env w1 = (Inl e, w2) \<Longrightarrow> search env q n w = (Inl e, w2)"
  by (simp add: search_def)

lemma search_record_search_raises:
  "youtube_search_videos env q (min (n * 2) 50) w = (Inr raw, w1) \<Longrightarrow>
   engine_get_preferences env w1 = (Inr prefs, w2) \<Longrightarrow>
   rank_by_preferences (calculate_preference_score env)
     (apply_preference_filters (env_clock env) prefs raw) prefs q = Inr ranked \<Longrightarrow>
   engine_record_search env q (int (length (slice_to n ranked))) w2 = (Inl e, w3) \<Longrightarrow>
   search env q n w = (Inl e, w3)"
  by (simp add: search_def Let_def)

lemma record_interaction_returns: "fst (record_interaction sq v a query st) = Inr ()"
  by (simp add: record_interaction_def split: prod.splits sum.splits)

lemma record_interaction_insert_fails:
  "insert_interaction sq (interaction_of v a query) (database st) = Inl e \<Longrightarrow>
   record_interaction sq v a query st = (Inr (), st)"
  by (simp add: record_interaction_def record_interaction_try_def)

lemma search_zero:
  "fst (search env q 0 w) = Inr [] \<or> (\<exists>e. fst (search env q 0 w) = Inl e)"
  by (auto simp: search_def slice_to_def Let_def split: prod.splits sum.splits)

lemma trending_loop_zero:
  "fst (trending_loop env 0 qs [] w) = Inr [] \<or> (\<exists>e. fst (trending_loop env 0 qs [] w) = Inl e)"
proof (induction qs arbitrary: w)
  case Nil
  show ?case by simp
next
  case (Cons q qs)
  obtain r w1 where s: "search env q 0 w = (r, w1)" by (cases "search env q 0 w")
  from search_zero[of env q w] s have "r = Inr [] \<or> (\<exists>e. r = Inl e)" by simp
  then show ?case
  proof
    assume "r = Inr []"
    then show ?thesis using s Cons.IH[of w1] by simp
  next
    assume "\<exists>e. r = Inl e"
    then show ?thesis using s by auto
  qed
qed

text \<open>
  C10, as amended. For every \<open>max_results\<close> from 0 to 3, the per-query result count
  \<open>max_results // 4\<close> is 0, each \<open>search\<close> asks the source for \<open>min(0 * 2, 50) = 0\<close> videos
  and keeps none of what it returns, and \<open>get_trending_personalized\<close> returns the empty
  list whatever the source, the preference engine and the scoring do.
\<close>

theorem trending_small_max_results:
  assumes "0 \<le> max_results" and "max_results < 4"
  shows "max_results div int (length trending_queries) = 0
       \<and> min ((max_results div int (length trending_queries)) * 2) 50 = 0
       \<and> fst (get_trending_personalized env max_results w) = Inr []"
proof -
  have n: "max_results div int (length trending_queries) = 0"
    using assms by (simp add: trending_queries_def)
  obtain r w1 where t: "trending_loop env 0 trending_queries [] w = (r, w1)"
    by (cases "trending_loop env 0 trending_queries [] w")
  from trending_loop_zero[of env trending_queries w] t
  have "r = Inr [] \<or> (\<exists>e. r = Inl e)" by simp
  then have "fst (get_trending_personalized env max_results w) = Inr []"
    unfolding get_trending_personalized_def n using t by (auto simp: slice_to_def)
  with n show ?thesis by simp
qed

lemma get_trending_returns: "\<exists>vs. fst (get_trending_personalized env n w) = Inr vs"
  by (simp add: get_trending_personalized_def split: prod.splits sum.splits)

lemma get_recommendations_returns: "\<exists>vs. fst (get_recommendations env n w) = Inr vs"
  by (simp add: get_recommendations_def Let_def split: prod.splits sum.splits)

lemma recommendations_loop_skips:
  "search env q n w = (Inl e, w1) \<Longrightarrow>
   recommendations_loop env n (q # qs) acc w = recommendations_loop env n qs acc w1"
  by simp

lemma trending_loop_stops:
  "search env q n w = (Inl e, w1) \<Longrightarrow> trending_loop env n (q # qs) acc w = (Inl e, w1)"
  by simp

lemma example_search:
  "\<not> source_fails q \<Longrightarrow>
   search (test_env source_fails False False) q n w =
     (Inr (slice_to n [video (q @ ''-1'') ''A'' q, video (q @ ''-2'') ''B'' q]),
      w @ [(q, int (length (slice_to n [video (q @ ''-1'') ''A'' q, video (q @ ''-2'') ''B'' q])))])"
  by (simp add: search_def test_env_def apply_preference_filters_def default_preferences_def
      video_def dict_get_def is_video_too_old_def rank_by_preferences_def sort_reverse_def
      score_by_views_def example_durations Let_def)

lemma example_search_fails:
  "source_fails q \<Longrightarrow>
   search (test_env source_fails False False) q n w = (Inl (Failure ''quota exceeded''), w)"
  by (simp add: search_def test_env_def)

theorem trending_negative_counterexample:
  "fst (get_trending_personalized (test_env (\<lambda>q. False) False False) (- 1) [])
     = Inr [video ''trending today-1'' ''A'' ''trending today'',
            video ''popular videos-1'' ''A'' ''popular videos'',
            video ''viral videos-1'' ''A'' ''viral videos'']
   \<and> (- 1 :: int) div int (length trending_queries) = - 1"
  by (simp add: get_trending_personalized_def trending_queries_def example_search slice_to_def
      video_def dict_get_def)

theorem trending_small_max_results_witness:
  "(0::int) \<le> 3 \<and> (3::int) < 4
   \<and> fst (get_trending_personalized (test_env (\<lambda>q. False) False False) 3 []) = Inr []"
  using trending_small_max_results[of 3 "test_env (\<lambda>q. False) False False" "[]"] by simp

text \<open>
  C4. With a source that raises on the second trending query only, the first query
  succeeds, yet \<open>get_trending_personalized\<close> returns the empty list: the exception ends
  its loop. \<open>get_recommendations\<close> on a source that raises on its second query returns the
  results of the other three.
\<close>

theorem trending_single_failure:
  "fst (search (test_env one_query_fails False False) ''trending today'' 2 [])
     = Inr [video ''trending today-1'' ''A'' ''trending today'',
            video ''trending today-2'' ''B'' ''trending today'']
   \<and> get_trending_personalized (test_env one_query_fails False False) 8 []
     = (Inr [], [(''trending today'', 2)])
   \<and> fst (get_recommendations (test_env one_query_fails False False) 4 [])
     = Inr [video ''educational-1'' ''A'' ''educational'',
            video ''technology-1'' ''A'' ''technology'',
            video ''music-1'' ''A'' ''music'']"
proof -
  have f: "one_query_fails ''popular videos''" "one_query_fails ''entertainment''"
    "\<not> one_query_fails ''trending today''" "\<not> one_query_fails ''educational''"
    "\<not> one_query_fails ''technology''" "\<not> one_query_fails ''music''"
    by (simp_all add: one_query_fails_def)
  have 1: "fst (search (test_env one_query_fails False False) ''trending today'' 2 [])
     = Inr [video ''trending today-1'' ''A'' ''trending today'',
            video ''trending today-2'' ''B'' ''trending today'']"
    by (simp add: example_search f slice_to_def)
  have 2: "get_trending_personalized (test_env one_query_fails False False) 8 []
     = (Inr [], [(''trending today'', 2)])"
    by (simp add: get_trending_personalized_def trending_queries_def example_search
        example_search_fails f slice_to_def)
  have 3: "fst (get_recommendations (test_env one_query_fails False False) 4 [])
     = Inr [video ''educational-1'' ''A'' ''educational'',
            video ''technology-1'' ''A'' ''technology'',
            video ''music-1'' ''A'' ''music'']"
    by (simp add: get_recommendations_def recommendation_queries_def example_search
        example_search_fails f slice_to_def default_preferences_def test_env_def[where preferences_fail = False, THEN arg_cong[where f = engine_get_preferences]] video_def dict_get_def)
  from 1 2 3 show ?thesis by simp
qed

text \<open>
  C3, as amended. An exception raised during \<open>search\<close> by the video source, or by the
  \<open>get_preferences\<close> or \<open>record_search\<close> method of the preference engine it was given,
  is the exception \<open>search\<close> raises. \<open>record_interaction\<close> never raises: an exception of
  the database during a learn call is caught and logged, and the call returns; when the
  insert of the interaction fails the engine is left as it was.
\<close>

theorem search_propagates_learn_returns:
  "(youtube_search_videos env q (min (n * 2) 50) w = (Inl e, w1) \<longrightarrow>
      search env q n w = (Inl e, w1))
   \<and> (youtube_search_videos env q (min (n * 2) 50) w = (Inr raw, w1)
       \<and> engine_get_preferences env w1 = (Inl e, w2) \<longrightarrow>
      search env q n w = (Inl e, w2))
   \<and> (youtube_search_videos env q (min (n * 2) 50) w = (Inr raw, w1)
       \<and> engine_get_preferences env w1 = (Inr prefs, w2)
       \<and> rank_by_preferences (calculate_preference_score env)
            (apply_preference_filters (env_clock env) prefs raw) prefs q = Inr ranked
       \<and> engine_record_search env q (int (length (slice_to n ranked))) w2 = (Inl e, w3) \<longrightarrow>
      search env q n w = (Inl e, w3))
   \<and> fst (record_interaction sq v a query st) = Inr ()
   \<and> (insert_interaction sq (interaction_of v a query) (database st) = Inl e' \<longrightarrow>
      record_interaction sq v a query st = (Inr (), st))"
  using search_source_raises[of env q n w e w1]
    search_get_preferences_raises[of env q n w raw w1 e w2]
    search_record_search_raises[of env q n w raw w1 prefs w2 ranked e w3]
    record_interaction_returns[of sq v a query st]
    record_interaction_insert_fails[of sq v a query st e']
  by blast

theorem learn_swallows_counterexample:
  "insert_interaction locked_sqlite (interaction_of greeting_video ''clicked'' None)
     (database fresh_engine) = Inl (Failure ''database is locked'')
   \<and> record_interaction locked_sqlite greeting_video ''clicked'' None fresh_engine
     = (Inr (), fresh_engine)"
  by (simp add: record_interaction_def record_interaction_try_def locked_sqlite_def)

theorem search_propagates_learn_returns_witness:
  "search (test_env one_query_fails False False) ''popular videos'' 5 []
     = (Inl (Failure ''quota exceeded''), [])
   \<and> search (test_env (\<lambda>q. False) True False) ''cats'' 5 [] = (Inl (Failure ''no preferences''), [])
   \<and> search (test_env (\<lambda>q. False) False True) ''cats'' 5 [] = (Inl (Failure ''no log''), [])
   \<and> record_interaction locked_sqlite greeting_video ''clicked'' None fresh_engine
     = (Inr (), fresh_engine)"
proof -
  let ?raw = "[video ''cats-1'' ''A'' ''cats'', video ''cats-2'' ''B'' ''cats'']"
  have a: "youtube_search_videos (test_env one_query_fails False False) ''popular videos''
             (min (5 * 2) 50) [] = (Inl (Failure ''quota exceeded''), [])"
    by (simp add: test_env_def one_query_fails_def)
  have b1: "youtube_search_videos (test_env (\<lambda>q. False) True False) ''cats'' (min (5 * 2) 50) []
             = (Inr ?raw, [])"
    by (simp add: test_env_def)
  have b2: "engine_get_preferences (test_env (\<lambda>q. False) True False) []
             = (Inl (Failure ''no preferences''), [])"
    by (simp add: test_env_def)
  have c1: "youtube_search_videos (test_env (\<lambda>q. False) False True) ''cats'' (min (5 * 2) 50) []
             = (Inr ?raw, [])"
    by (simp add: test_env_def)
  have c2: "engine_get_preferences (test_env (\<lambda>q. False) False True) []
             = (Inr default_preferences, [])"
    by (simp add: test_env_def)
  have c3: "rank_by_preferences (calculate_preference_score (test_env (\<lambda>q. False) False True))
             (apply_preference_filters (env_clock (test_env (\<lambda>q. False) False True))
                default_preferences ?raw) default_preferences ''cats'' = Inr ?raw"
    by (simp add: test_env_def apply_preference_filters_def default_preferences_def
      video_def dict_get_def is_video_too_old_def rank_by_preferences_def sort_reverse_def
      score_by_views_def example_durations)
  have c4: "engine_record_search (test_env (\<lambda>q. False) False True) ''cats''
              (int (length (slice_to 5 ?raw))) [] = (Inl (Failure ''no log''), [])"
    by (simp add: test_env_def)
  have d: "insert_interaction locked_sqlite (interaction_of greeting_video ''clicked'' None)
             (database fresh_engine) = Inl (Failure ''database is locked'')"
    by (simp add: locked_sqlite_def)
  from a search_propagates_learn_returns[of "test_env one_query_fails False False"
      "''popular videos''" 5 "[]" "Failure ''quota exceeded''" "[]"]
  have 1: "search (test_env one_query_fails False False) ''popular videos'' 5 []
     = (Inl (Failure ''quota exceeded''), [])" by blast
  from b1 b2 search_propagates_learn_returns[of "test_env (\<lambda>q. False) True False"
      "''cats''" 5 "[]" "Failure ''no preferences''" "[]" ?raw "[]"]
  have 2: "search (test_env (\<lambda>q. False) True False) ''cats'' 5 []
     = (Inl (Failure ''no preferences''), [])" by blast
  from c1 c2 c3 c4 search_propagates_learn_returns[of "test_env (\<lambda>q. False) False True"
      "''cats''" 5 "[]" "Failure ''no log''" "[]" ?raw "[]" default_preferences ?raw "[]"]
  have 3: "search (test_env (\<lambda>q. False) False True) ''cats'' 5 []
     = (Inl (Failure ''no log''), [])" by blast
  from d search_propagates_learn_returns[of "test_env (\<lambda>q. False) False True"
      "''cats''" 5 "[]" "Failure ''no log''" "[]" ?raw "[]" default_preferences ?raw "[]"
      locked_sqlite greeting_video "''clicked''" None fresh_engine
      "Failure ''database is locked''"]
  have 4: "record_interaction locked_sqlite greeting_video ''clicked'' None fresh_engine
     = (Inr (), fresh_engine)" by blast
  from 1 2 3 4 show ?thesis by blast
qed

lemma recommendations_loop_all_fail:
  "(\<forall>q \<in> set qs. \<forall>w. \<exists>e w1. search env q n w = (Inl e, w1)) \<Longrightarrow>
   fst (recommendations_loop env n qs acc w) = acc"
proof (induction qs arbitrary: w)
  case Nil
  show ?case by simp
next
  case (Cons q qs)
  from Cons.prems obtain e w1 where s: "search env q n w = (Inl e, w1)" by fastforce
  from Cons.prems have "\<forall>q \<in> set qs. \<forall>w. \<exists>e w1. search env q n w = (Inl e, w1)" by simp
  from Cons.IH[OF this, of w1] s show ?case by simp
qed

lemma get_recommendations_all_fail:
  assumes "engine_get_preferences env w0 = (Inr prefs, w1)"
    and "\<forall>q w. \<exists>e w2.
           search env q (max 1 (n div int (length (recommendation_queries prefs)))) w = (Inl e, w2)"
  shows "fst (get_recommendations env n w0) = Inr []"
proof -
  let ?k = "max 1 (n div int (length (recommendation_queries prefs)))"
  have "\<forall>q \<in> set (recommendation_queries prefs). \<forall>w. \<exists>e w2. search env q ?k w = (Inl e, w2)"
    using assms(2) by simp
  from recommendations_loop_all_fail[OF this, of "[]" w1]
  have f: "fst (recommendations_loop env ?k (recommendation_queries prefs) [] w1) = []" .
  obtain rs w2 where l: "recommendations_loop env ?k (recommendation_queries prefs) [] w1 = (rs, w2)"
    by (cases "recommendations_loop env ?k (recommendation_queries prefs) [] w1")
  with f have "rs = []" by simp
  with l assms(1) show ?thesis
    by (simp add: get_recommendations_def Let_def slice_to_def)
qed

lemma get_recommendations_no_preferences:
  "engine_get_preferences env w0 = (Inl e, w1) \<Longrightarrow> get_recommendations env n w0 = (Inr [], w1)"
  by (simp add: get_recommendations_def)

lemma get_trending_first_fails:
  "search env (hd trending_queries) (n div int (length trending_queries)) w = (Inl e, w1) \<Longrightarrow>
   get_trending_personalized env n w = (Inr [], w1)"
  by (simp add: get_trending_personalized_def trending_queries_def)

end
